theory Spec2Isabelle
  imports Complex_Main "HOL-Library.Word"
begin

section \<open>JavaScript values at the edge functions\<close>

text \<open>
  The edge functions read a request body with \<^verbatim>\<open>await req.json()\<close> and answer with
  \<^verbatim>\<open>JSON.stringify(...)\<close> of an object literal. A body is a JSON document. A number
  is the IEEE double that \<^verbatim>\<open>JSON.parse\<close> makes of the literal: a finite double, which
  is a rational (the two zeros are one value here, both are falsy and both are written
  \<^verbatim>\<open>0\<close>), or an infinity, which a literal beyond the range of the doubles such as
  \<^verbatim>\<open>1e400\<close> gives. An object has its members in source order, repeated keys
  included; what \<^verbatim>\<open>JSON.parse\<close> makes of them is in \<open>get_prop\<close> and \<open>js_object\<close>
  below.
\<close>

datatype js_number = Finite rat | PosInfinity | NegInfinity

datatype json =
    JNull
  | JBool bool
  | JNum js_number
  | JStr string
  | JArr "json list"
  | JObj "(string \<times> json) list"

text \<open>An exception of the runtime, with the \<^verbatim>\<open>message\<close> of the Error object.\<close>

datatype js_error = SyntaxError string | TypeError string

fun error_message :: "js_error \<Rightarrow> string" where
  "error_message (SyntaxError m) = m"
| "error_message (TypeError m) = m"

text \<open>
  \<^verbatim>\<open>payload.name\<close>, for a name \<open>k\<close> that no prototype defines (the handlers read
  \<^verbatim>\<open>project_id\<close> and \<^verbatim>\<open>base_url\<close>): reading a property of \<^verbatim>\<open>null\<close> throws a
  TypeError; an object yields its member or \<^verbatim>\<open>undefined\<close> (\<open>None\<close>); a boolean,
  number, string or array has no such property, so the result is \<^verbatim>\<open>undefined\<close>.
\<close>

fun get_prop :: "json \<Rightarrow> string \<Rightarrow> js_error + json option" where
  "get_prop JNull k =
     Inl (TypeError (''Cannot read properties of null (reading '' @ [CHR 0x27] @ k @ [CHR 0x27] @ '')''))"
| "get_prop (JObj kvs) k = Inr (map_of (rev kvs) k)"
| "get_prop (JBool b) k = Inr None"
| "get_prop (JNum n) k = Inr None"
| "get_prop (JStr s) k = Inr None"
| "get_prop (JArr xs) k = Inr None"

text \<open>JavaScript truthiness of a JSON value, and \<^verbatim>\<open>!v\<close> for a value that may be undefined.\<close>

fun truthy :: "json \<Rightarrow> bool" where
  "truthy JNull = False"
| "truthy (JBool b) = b"
| "truthy (JNum (Finite q)) = (q \<noteq> 0)"
| "truthy (JNum PosInfinity) = True"
| "truthy (JNum NegInfinity) = True"
| "truthy (JStr s) = (s \<noteq> [])"
| "truthy (JArr xs) = True"
| "truthy (JObj kvs) = True"

fun js_not :: "json option \<Rightarrow> bool" where
  "js_not None = True"
| "js_not (Some v) = (\<not> truthy v)"

text \<open>
  \<^verbatim>\<open>url.searchParams.get(name)\<close>: the value of the first pair of that name, or
  \<^verbatim>\<open>null\<close> (\<open>None\<close>). \<^verbatim>\<open>!s\<close> on the result holds for \<^verbatim>\<open>null\<close> and for the empty string.
\<close>

fun searchParams_get :: "(string \<times> string) list \<Rightarrow> string \<Rightarrow> string option" where
  "searchParams_get [] name = None"
| "searchParams_get ((k, v) # ps) name = (if k = name then Some v else searchParams_get ps name)"

fun param_not :: "string option \<Rightarrow> bool" where
  "param_not None = True"
| "param_not (Some s) = (s = [])"

fun param_json :: "string option \<Rightarrow> json" where
  "param_json None = JNull"
| "param_json (Some s) = JStr s"

text \<open>
  The own property keys of the object \<^verbatim>\<open>JSON.parse\<close> builds from a member list, in
  the order \<^verbatim>\<open>JSON.stringify\<close> writes them: the array indices (canonical decimal
  strings below \<^verbatim>\<open>2^32 - 1\<close>) in ascending order, then the other keys in the order
  of their first occurrence.
\<close>

definition js_digit :: "char \<Rightarrow> bool" where
  "js_digit c = (48 \<le> (of_char c :: nat) \<and> (of_char c :: nat) \<le> 57)"

definition js_decimal :: "string \<Rightarrow> nat" where
  "js_decimal s = foldl (\<lambda>n c. 10 * n + (of_char c - 48)) 0 s"

fun array_index :: "string \<Rightarrow> nat option" where
  "array_index [] = None"
| "array_index (c # cs) =
     (if list_all js_digit (c # cs) \<and> (cs = [] \<or> c \<noteq> CHR ''0'') \<and>
         js_decimal (c # cs) < 2 ^ 32 - 1
      then Some (js_decimal (c # cs)) else None)"

definition js_own_keys :: "(string \<times> 'v) list \<Rightarrow> string list" where
  "js_own_keys kvs =
     (let ks = rev (remdups (rev (map fst kvs)))
      in sort_key (\<lambda>k. case array_index k of None \<Rightarrow> 0 | Some n \<Rightarrow> n)
           (filter (\<lambda>k. array_index k \<noteq> None) ks) @
         filter (\<lambda>k. array_index k = None) ks)"

text \<open>
  The object \<^verbatim>\<open>JSON.parse\<close> builds from a member list: each own key once, with the
  value of its last member.
\<close>

definition js_object :: "(string \<times> 'v) list \<Rightarrow> (string \<times> 'v) list" where
  "js_object kvs =
     List.map_filter (\<lambda>k. map_option (Pair k) (map_of (rev kvs) k)) (js_own_keys kvs)"

text \<open>
  The JSON value that \<^verbatim>\<open>JSON.stringify\<close> writes for a value read from the request: an
  infinity is written \<^verbatim>\<open>null\<close>, an object with its own keys in their order, everything
  else as it is.
\<close>

fun stringify_value :: "json \<Rightarrow> json" where
  "stringify_value JNull = JNull"
| "stringify_value (JBool b) = JBool b"
| "stringify_value (JNum (Finite q)) = JNum (Finite q)"
| "stringify_value (JNum PosInfinity) = JNull"
| "stringify_value (JNum NegInfinity) = JNull"
| "stringify_value (JStr s) = JStr s"
| "stringify_value (JArr xs) = JArr (map stringify_value xs)"
| "stringify_value (JObj kvs) = JObj (js_object (map (\<lambda>(k, v). (k, stringify_value v)) kvs))"

section \<open>Requests and responses\<close>

text \<open>
  A request as the handlers see it: the method, the pairs of the URL's query string in
  order, and what \<^verbatim>\<open>await req.json()\<close> gives (the body's JSON document, or the
  exception it throws). A response is its status, its headers and the JSON value written
  as its body (\<open>None\<close> for the \<^verbatim>\<open>null\<close> body of the OPTIONS reply).
\<close>

record request =
  req_method :: string
  req_query :: "(string \<times> string) list"
  req_json :: "js_error + json"

record response =
  status :: nat
  headers :: "(string \<times> string) list"
  resp_body :: "json option"

definition corsHeaders :: "(string \<times> string) list" where
  "corsHeaders =
     [(''Access-Control-Allow-Origin'', ''*''),
      (''Access-Control-Allow-Methods'', ''GET, POST, PUT, DELETE, OPTIONS''),
      (''Access-Control-Allow-Headers'', ''Content-Type, Authorization, X-Client-Info, Apikey'')]"

text \<open>
  \<^verbatim>\<open>new Response(JSON.stringify(v), {status: code, headers: ...})\<close>.
\<close>

definition json_response :: "nat \<Rightarrow> json \<Rightarrow> response" where
  "json_response code v =
     \<lparr>status = code,
      headers = corsHeaders @ [(''Content-Type'', ''application/json'')],
      resp_body = Some (stringify_value v)\<rparr>"

definition options_response :: response where
  "options_response = \<lparr>status = 200, headers = corsHeaders, resp_body = None\<rparr>"

definition method_not_allowed :: response where
  "method_not_allowed = json_response 405 (JObj [(''error'', JStr ''Method not allowed'')])"

text \<open>The \<^verbatim>\<open>catch\<close> block shared by the handlers.\<close>

definition internal_server_error :: "js_error \<Rightarrow> response" where
  "internal_server_error e =
     json_response 500
       (JObj [(''error'', JStr ''Internal server error''), (''message'', JStr (error_message e))])"

section \<open>The qa-test-runner edge function\<close>

text \<open>
  An object literal of the handler, handed to \<^verbatim>\<open>JSON.stringify\<close>, which leaves out a
  member whose value is \<^verbatim>\<open>undefined\<close>.
\<close>

definition object_literal :: "(string \<times> json option) list \<Rightarrow> json" where
  "object_literal ms = JObj (List.map_filter (\<lambda>(k, v). map_option (Pair k) v) ms)"

text \<open>
  The test \<^verbatim>\<open>!payload.project_id || !payload.base_url\<close>: \<^verbatim>\<open>base_url\<close> is read only
  when the first operand is false, and either read throws on a \<^verbatim>\<open>null\<close> payload.
\<close>

definition missing_required_fields :: "json \<Rightarrow> js_error + bool" where
  "missing_required_fields payload =
     (case get_prop payload ''project_id'' of
        Inl e \<Rightarrow> Inl e
      | Inr pid \<Rightarrow>
          if js_not pid then Inr True
          else (case get_prop payload ''base_url'' of
                  Inl e \<Rightarrow> Inl e
                | Inr burl \<Rightarrow> Inr (js_not burl)))"

text \<open>The body of the \<^verbatim>\<open>try\<close> block; \<open>now\<close> is \<^verbatim>\<open>new Date().toISOString()\<close>.\<close>

definition qa_test_runner_try :: "string \<Rightarrow> request \<Rightarrow> js_error + response" where
  "qa_test_runner_try now req =
     (if req_method req = ''POST'' then
        (case req_json req of
           Inl e \<Rightarrow> Inl e
         | Inr payload \<Rightarrow>
             (case missing_required_fields payload of
                Inl e \<Rightarrow> Inl e
              | Inr missing \<Rightarrow>
                  if missing then
                    Inr (json_response 400
                      (JObj [(''error'', JStr ''Missing required fields: project_id, base_url'')]))
                  else
                    (case get_prop payload ''project_id'' of
                       Inl e \<Rightarrow> Inl e
                     | Inr pid \<Rightarrow>
                         Inr (json_response 202
                           (object_literal
                              [(''status'', Some (JStr ''started'')),
                               (''project_id'', pid),
                               (''message'',
                                  Some (JStr ''QA test suite initiated. Check database for updates.'')),
                               (''timestamp'', Some (JStr now))])))))
      else if req_method req = ''GET'' then
        (let project_id = searchParams_get (req_query req) ''project_id'' in
         if param_not project_id then
           Inr (json_response 400 (JObj [(''error'', JStr ''Missing project_id parameter'')]))
         else
           Inr (json_response 200
             (JObj [(''project_id'', param_json project_id),
                    (''message'', JStr ''Retrieve test execution history from test_executions table''),
                    (''endpoint'', JStr ''GET /functions/v1/qa-test-runner?project_id=<project_id>'')])))
      else Inr method_not_allowed)"

definition qa_test_runner :: "string \<Rightarrow> request \<Rightarrow> response" where
  "qa_test_runner now req =
     (if req_method req = ''OPTIONS'' then options_response
      else case qa_test_runner_try now req of
             Inl e \<Rightarrow> internal_server_error e
           | Inr r \<Rightarrow> r)"

section \<open>The bug-report-query edge function\<close>

definition bug_report_query_try :: "string \<Rightarrow> request \<Rightarrow> js_error + response" where
  "bug_report_query_try now req =
     (if req_method req = ''GET'' then
        (let execution_id = searchParams_get (req_query req) ''execution_id'';
             project_id = searchParams_get (req_query req) ''project_id'';
             severity = searchParams_get (req_query req) ''severity'' in
         if param_not execution_id \<and> param_not project_id then
           Inr (json_response 400
             (JObj [(''error'', JStr ''Missing execution_id or project_id parameter'')]))
         else
           Inr (json_response 200
             (JObj [(''query'', JObj [(''execution_id'', param_json execution_id),
                                      (''project_id'', param_json project_id),
                                      (''severity'', param_json severity)]),
                    (''message'', JStr ''Query bug reports using the database directly''),
                    (''example'',
                       JStr ''GET /functions/v1/bug-report-query?execution_id=<id>&severity=critical'')])))
      else if req_method req = ''POST'' then
        (case req_json req of
           Inl e \<Rightarrow> Inl e
         | Inr payload \<Rightarrow>
             Inr (json_response 200
               (JObj [(''status'', JStr ''received''),
                      (''message'', JStr ''Bug report query processed''),
                      (''query'', payload),
                      (''timestamp'', JStr now)])))
      else Inr method_not_allowed)"

definition bug_report_query :: "string \<Rightarrow> request \<Rightarrow> response" where
  "bug_report_query now req =
     (if req_method req = ''OPTIONS'' then options_response
      else case bug_report_query_try now req of
             Inl e \<Rightarrow> internal_server_error e
           | Inr r \<Rightarrow> r)"

text \<open>
  What the words "missing (or falsy) in the JSON body" say of a parsed body and a field
  name: the body is not an object, the object has no such member, or the member's value
  is falsy. This predicate is written from the claim, not from the handler.
\<close>

definition missing_or_falsy :: "json \<Rightarrow> string \<Rightarrow> bool" where
  "missing_or_falsy payload k =
     (case payload of
        JObj kvs \<Rightarrow> (case map_of (rev kvs) k of None \<Rightarrow> True | Some v \<Rightarrow> \<not> truthy v)
      | _ \<Rightarrow> True)"

text \<open>
  The values that \<^verbatim>\<open>JSON.stringify\<close> writes back as they were read: \<^verbatim>\<open>null\<close>, a
  boolean, a finite number, a string.
\<close>

fun plain_scalar :: "json \<Rightarrow> bool" where
  "plain_scalar JNull = True"
| "plain_scalar (JBool b) = True"
| "plain_scalar (JNum (Finite q)) = True"
| "plain_scalar (JNum PosInfinity) = False"
| "plain_scalar (JNum NegInfinity) = False"
| "plain_scalar (JStr s) = True"
| "plain_scalar (JArr xs) = False"
| "plain_scalar (JObj kvs) = False"

section \<open>The relational schema\<close>

text \<open>
  The migration declares nine tables. A row is a record of the table's columns: a column
  declared \<^verbatim>\<open>NOT NULL\<close> (or \<^verbatim>\<open>PRIMARY KEY\<close>) has its value, any other column an
  option (\<open>None\<close> is \<^verbatim>\<open>NULL\<close>; a \<^verbatim>\<open>DEFAULT\<close> fills in a column the statement
  leaves out, it does not forbid \<^verbatim>\<open>NULL\<close>). A \<^verbatim>\<open>uuid\<close> is 128 bits, a
  \<^verbatim>\<open>timestamptz\<close> a count of microseconds, \<^verbatim>\<open>integer\<close> and \<^verbatim>\<open>numeric\<close> values are
  carried as numbers and \<^verbatim>\<open>jsonb\<close> as a JSON value.
\<close>

type_synonym uuid = "128 word"
type_synonym timestamptz = int

record test_project =
  tp_id :: uuid
  tp_name :: string
  tp_description :: "string option"
  tp_base_url :: string
  tp_owner_id :: uuid
  tp_status :: "string option"
  tp_created_at :: "timestamptz option"
  tp_updated_at :: "timestamptz option"

record test_scenario =
  ts_id :: uuid
  ts_project_id :: uuid
  ts_name :: string
  ts_description :: "string option"
  ts_test_type :: string
  ts_priority :: "string option"
  ts_enabled :: "bool option"
  ts_created_at :: "timestamptz option"
  ts_updated_at :: "timestamptz option"

record test_execution =
  te_id :: uuid
  te_project_id :: uuid
  te_execution_date :: "timestamptz option"
  te_status :: "string option"
  te_total_tests :: "int option"
  te_passed :: "int option"
  te_failed :: "int option"
  te_warnings :: "int option"
  te_duration_seconds :: "int option"
  te_created_at :: "timestamptz option"

record test_result =
  tr_id :: uuid
  tr_execution_id :: uuid
  tr_scenario_id :: uuid
  tr_status :: string
  tr_error_message :: "string option"
  tr_duration_ms :: "int option"
  tr_details :: "json option"
  tr_created_at :: "timestamptz option"

record bug_report =
  br_id :: uuid
  br_project_id :: uuid
  br_execution_id :: "uuid option"
  br_title :: string
  br_description :: "string option"
  br_severity :: string
  br_status :: "string option"
  br_bug_type :: "string option"
  br_page_url :: "string option"
  br_steps_to_reproduce :: "string option"
  br_expected_behavior :: "string option"
  br_actual_behavior :: "string option"
  br_browser_info :: "json option"
  br_created_at :: "timestamptz option"
  br_updated_at :: "timestamptz option"

record performance_metric =
  pm_id :: uuid
  pm_execution_id :: uuid
  pm_page_url :: string
  pm_page_load_time_ms :: "int option"
  pm_first_contentful_paint_ms :: "int option"
  pm_largest_contentful_paint_ms :: "int option"
  pm_total_requests :: "int option"
  pm_failed_requests :: "int option"
  pm_total_size_kb :: "rat option"
  pm_resource_details :: "json option"
  pm_created_at :: "timestamptz option"

record accessibility_issue =
  ai_id :: uuid
  ai_execution_id :: uuid
  ai_page_url :: string
  ai_issue_type :: string
  ai_wcag_level :: "string option"
  ai_element_description :: "string option"
  ai_severity :: "string option"
  ai_recommendation :: "string option"
  ai_created_at :: "timestamptz option"

record screenshot =
  sc_id :: uuid
  sc_execution_id :: uuid
  sc_scenario_id :: "uuid option"
  sc_page_url :: "string option"
  sc_screenshot_path :: "string option"
  sc_screenshot_data :: "string option"
  sc_description :: "string option"
  sc_created_at :: "timestamptz option"

record test_schedule =
  sd_id :: uuid
  sd_project_id :: uuid
  sd_name :: string
  sd_cron_expression :: string
  sd_enabled :: "bool option"
  sd_last_run :: "timestamptz option"
  sd_next_run :: "timestamptz option"
  sd_created_at :: "timestamptz option"
  sd_updated_at :: "timestamptz option"

record database =
  test_projects :: "test_project list"
  test_scenarios :: "test_scenario list"
  test_executions :: "test_execution list"
  test_results :: "test_result list"
  bug_reports :: "bug_report list"
  performance_metrics :: "performance_metric list"
  accessibility_issues :: "accessibility_issue list"
  screenshots :: "screenshot list"
  test_schedules :: "test_schedule list"

definition empty_db :: database where
  "empty_db =
     \<lparr>test_projects = [], test_scenarios = [], test_executions = [], test_results = [],
      bug_reports = [], performance_metrics = [], accessibility_issues = [],
      screenshots = [], test_schedules = []\<rparr>"

text \<open>
  A statement fails on the constraint it violates, named as the migration's table. The
  row-level-security policies of the migration decide who may run a statement, not what it
  does to the rows; they are no part of the statements below.
\<close>

datatype db_error = UniqueViolation string | ForeignKeyViolation string

definition project_exists :: "database \<Rightarrow> uuid \<Rightarrow> bool" where
  "project_exists db p = (p \<in> set (map tp_id (test_projects db)))"

definition scenario_exists :: "database \<Rightarrow> uuid \<Rightarrow> bool" where
  "scenario_exists db s = (s \<in> set (map ts_id (test_scenarios db)))"

definition execution_exists :: "database \<Rightarrow> uuid \<Rightarrow> bool" where
  "execution_exists db e = (e \<in> set (map te_id (test_executions db)))"

section \<open>Statements on the store\<close>

text \<open>
  \<^verbatim>\<open>INSERT\<close> of a full row (the defaults already filled in): the primary key must be new
  and every foreign key that is not \<^verbatim>\<open>NULL\<close> must name a row of the referenced table.
\<close>

definition insert_project :: "test_project \<Rightarrow> database \<Rightarrow> db_error + database" where
  "insert_project r db =
     (if project_exists db (tp_id r) then Inl (UniqueViolation ''test_projects'')
      else Inr (db\<lparr>test_projects := test_projects db @ [r]\<rparr>))"

definition insert_scenario :: "test_scenario \<Rightarrow> database \<Rightarrow> db_error + database" where
  "insert_scenario r db =
     (if scenario_exists db (ts_id r) then Inl (UniqueViolation ''test_scenarios'')
      else if \<not> project_exists db (ts_project_id r) then Inl (ForeignKeyViolation ''test_scenarios'')
      else Inr (db\<lparr>test_scenarios := test_scenarios db @ [r]\<rparr>))"

definition insert_execution :: "test_execution \<Rightarrow> database \<Rightarrow> db_error + database" where
  "insert_execution r db =
     (if execution_exists db (te_id r) then Inl (UniqueViolation ''test_executions'')
      else if \<not> project_exists db (te_project_id r) then Inl (ForeignKeyViolation ''test_executions'')
      else Inr (db\<lparr>test_executions := test_executions db @ [r]\<rparr>))"

definition insert_result :: "test_result \<Rightarrow> database \<Rightarrow> db_error + database" where
  "insert_result r db =
     (if tr_id r \<in> set (map tr_id (test_results db)) then Inl (UniqueViolation ''test_results'')
      else if \<not> execution_exists db (tr_execution_id r) \<or> \<not> scenario_exists db (tr_scenario_id r)
        then Inl (ForeignKeyViolation ''test_results'')
      else Inr (db\<lparr>test_results := test_results db @ [r]\<rparr>))"

text \<open>
  A bug report names its project (\<^verbatim>\<open>NOT NULL\<close>) and may name an execution. The table has
  a primary key and no other uniqueness constraint.
\<close>

definition bug_report_fks_ok :: "database \<Rightarrow> bug_report \<Rightarrow> bool" where
  "bug_report_fks_ok db r =
     (project_exists db (br_project_id r) \<and>
      (case br_execution_id r of None \<Rightarrow> True | Some e \<Rightarrow> execution_exists db e))"

definition insert_bug_report :: "bug_report \<Rightarrow> database \<Rightarrow> db_error + database" where
  "insert_bug_report r db =
     (if br_id r \<in> set (map br_id (bug_reports db)) then Inl (UniqueViolation ''bug_reports'')
      else if \<not> bug_report_fks_ok db r then Inl (ForeignKeyViolation ''bug_reports'')
      else Inr (db\<lparr>bug_reports := bug_reports db @ [r]\<rparr>))"

definition insert_metric :: "performance_metric \<Rightarrow> database \<Rightarrow> db_error + database" where
  "insert_metric r db =
     (if pm_id r \<in> set (map pm_id (performance_metrics db))
        then Inl (UniqueViolation ''performance_metrics'')
      else if \<not> execution_exists db (pm_execution_id r)
        then Inl (ForeignKeyViolation ''performance_metrics'')
      else Inr (db\<lparr>performance_metrics := performance_metrics db @ [r]\<rparr>))"

definition insert_issue :: "accessibility_issue \<Rightarrow> database \<Rightarrow> db_error + database" where
  "insert_issue r db =
     (if ai_id r \<in> set (map ai_id (accessibility_issues db))
        then Inl (UniqueViolation ''accessibility_issues'')
      else if \<not> execution_exists db (ai_execution_id r)
        then Inl (ForeignKeyViolation ''accessibility_issues'')
      else Inr (db\<lparr>accessibility_issues := accessibility_issues db @ [r]\<rparr>))"

definition insert_screenshot :: "screenshot \<Rightarrow> database \<Rightarrow> db_error + database" where
  "insert_screenshot r db =
     (if sc_id r \<in> set (map sc_id (screenshots db)) then Inl (UniqueViolation ''screenshots'')
      else if \<not> execution_exists db (sc_execution_id r) \<or>
              (case sc_scenario_id r of None \<Rightarrow> False | Some s \<Rightarrow> \<not> scenario_exists db s)
        then Inl (ForeignKeyViolation ''screenshots'')
      else Inr (db\<lparr>screenshots := screenshots db @ [r]\<rparr>))"

definition insert_schedule :: "test_schedule \<Rightarrow> database \<Rightarrow> db_error + database" where
  "insert_schedule r db =
     (if sd_id r \<in> set (map sd_id (test_schedules db)) then Inl (UniqueViolation ''test_schedules'')
      else if \<not> project_exists db (sd_project_id r) then Inl (ForeignKeyViolation ''test_schedules'')
      else Inr (db\<lparr>test_schedules := test_schedules db @ [r]\<rparr>))"

text \<open>
  \<^verbatim>\<open>UPDATE bug_reports SET ... WHERE id = x\<close>, the new row given in full: no row of that
  id changes nothing; otherwise the new row's key must not be another row's and its
  foreign keys must resolve. No table references \<^verbatim>\<open>bug_reports\<close>.
\<close>

definition update_bug_report :: "uuid \<Rightarrow> bug_report \<Rightarrow> database \<Rightarrow> db_error + database" where
  "update_bug_report x r db =
     (if x \<notin> set (map br_id (bug_reports db)) then Inr db
      else if br_id r \<in> set (map br_id (filter (\<lambda>b. br_id b \<noteq> x) (bug_reports db)))
        then Inl (UniqueViolation ''bug_reports'')
      else if \<not> bug_report_fks_ok db r then Inl (ForeignKeyViolation ''bug_reports'')
      else Inr (db\<lparr>bug_reports := map (\<lambda>b. if br_id b = x then r else b) (bug_reports db)\<rparr>))"

text \<open>
  \<^verbatim>\<open>DELETE FROM test_executions WHERE id = e\<close>. The referencing columns say what happens
  to the rows that name the execution: \<^verbatim>\<open>test_results\<close>, \<^verbatim>\<open>performance_metrics\<close>,
  \<^verbatim>\<open>accessibility_issues\<close> and \<^verbatim>\<open>screenshots\<close> declare \<^verbatim>\<open>ON DELETE CASCADE\<close>, so
  their rows go; \<^verbatim>\<open>bug_reports.execution_id\<close> declares \<^verbatim>\<open>ON DELETE SET NULL\<close>, so its
  rows stay and lose the reference.
\<close>

definition set_null_execution :: "(uuid \<Rightarrow> bool) \<Rightarrow> bug_report \<Rightarrow> bug_report" where
  "set_null_execution gone b =
     (case br_execution_id b of
        None \<Rightarrow> b
      | Some e \<Rightarrow> if gone e then b\<lparr>br_execution_id := None\<rparr> else b)"

definition set_null_scenario :: "(uuid \<Rightarrow> bool) \<Rightarrow> screenshot \<Rightarrow> screenshot" where
  "set_null_scenario gone s =
     (case sc_scenario_id s of
        None \<Rightarrow> s
      | Some x \<Rightarrow> if gone x then s\<lparr>sc_scenario_id := None\<rparr> else s)"

definition delete_execution :: "uuid \<Rightarrow> database \<Rightarrow> database" where
  "delete_execution e db =
     (if \<not> execution_exists db e then db
      else db\<lparr>test_executions := filter (\<lambda>x. te_id x \<noteq> e) (test_executions db),
              test_results := filter (\<lambda>x. tr_execution_id x \<noteq> e) (test_results db),
              bug_reports := map (set_null_execution (\<lambda>x. x = e)) (bug_reports db),
              performance_metrics := filter (\<lambda>x. pm_execution_id x \<noteq> e) (performance_metrics db),
              accessibility_issues := filter (\<lambda>x. ai_execution_id x \<noteq> e) (accessibility_issues db),
              screenshots := filter (\<lambda>x. sc_execution_id x \<noteq> e) (screenshots db)\<rparr>)"

text \<open>
  \<^verbatim>\<open>DELETE FROM test_projects WHERE id = p\<close>: scenarios, executions, bug reports and
  schedules of the project cascade, and so does everything that cascades from the deleted
  scenarios and executions; a bug report of another project that named a deleted
  execution, and a screenshot that named a deleted scenario, lose the reference.
\<close>

definition delete_project :: "uuid \<Rightarrow> database \<Rightarrow> database" where
  "delete_project p db =
     (if \<not> project_exists db p then db
      else
        (let es = map te_id (filter (\<lambda>x. te_project_id x = p) (test_executions db));
             ss = map ts_id (filter (\<lambda>x. ts_project_id x = p) (test_scenarios db))
         in db\<lparr>test_projects := filter (\<lambda>x. tp_id x \<noteq> p) (test_projects db),
                test_scenarios := filter (\<lambda>x. ts_project_id x \<noteq> p) (test_scenarios db),
                test_executions := filter (\<lambda>x. te_project_id x \<noteq> p) (test_executions db),
                test_results :=
                  filter (\<lambda>x. tr_execution_id x \<notin> set es \<and> tr_scenario_id x \<notin> set ss)
                    (test_results db),
                bug_reports :=
                  map (set_null_execution (\<lambda>x. x \<in> set es))
                    (filter (\<lambda>x. br_project_id x \<noteq> p) (bug_reports db)),
                performance_metrics :=
                  filter (\<lambda>x. pm_execution_id x \<notin> set es) (performance_metrics db),
                accessibility_issues :=
                  filter (\<lambda>x. ai_execution_id x \<notin> set es) (accessibility_issues db),
                screenshots :=
                  map (set_null_scenario (\<lambda>x. x \<in> set ss))
                    (filter (\<lambda>x. sc_execution_id x \<notin> set es) (screenshots db)),
                test_schedules := filter (\<lambda>x. sd_project_id x \<noteq> p) (test_schedules db)\<rparr>))"

text \<open>The statements, and a history of them run from the empty store.\<close>

datatype db_op =
    InsertProject test_project
  | InsertScenario test_scenario
  | InsertExecution test_execution
  | InsertResult test_result
  | InsertBugReport bug_report
  | InsertMetric performance_metric
  | InsertIssue accessibility_issue
  | InsertScreenshot screenshot
  | InsertSchedule test_schedule
  | UpdateBugReport uuid bug_report
  | DeleteExecution uuid
  | DeleteProject uuid

fun apply_db_op :: "db_op \<Rightarrow> database \<Rightarrow> db_error + database" where
  "apply_db_op (InsertProject r) db = insert_project r db"
| "apply_db_op (InsertScenario r) db = insert_scenario r db"
| "apply_db_op (InsertExecution r) db = insert_execution r db"
| "apply_db_op (InsertResult r) db = insert_result r db"
| "apply_db_op (InsertBugReport r) db = insert_bug_report r db"
| "apply_db_op (InsertMetric r) db = insert_metric r db"
| "apply_db_op (InsertIssue r) db = insert_issue r db"
| "apply_db_op (InsertScreenshot r) db = insert_screenshot r db"
| "apply_db_op (InsertSchedule r) db = insert_schedule r db"
| "apply_db_op (UpdateBugReport x r) db = update_bug_report x r db"
| "apply_db_op (DeleteExecution e) db = Inr (delete_execution e db)"
| "apply_db_op (DeleteProject p) db = Inr (delete_project p db)"

text \<open>A failed statement changes nothing and the history goes on, as separate requests do.\<close>

fun run_db_ops :: "db_op list \<Rightarrow> database \<Rightarrow> database" where
  "run_db_ops [] db = db"
| "run_db_ops (op # ops) db =
     (case apply_db_op op db of Inl e \<Rightarrow> run_db_ops ops db | Inr db' \<Rightarrow> run_db_ops ops db')"

definition reachable :: "database \<Rightarrow> bool" where
  "reachable db = (\<exists>ops. db = run_db_ops ops empty_db)"

text \<open>
  The deduplication key (execution_id, page_url, bug_type, description-hash) read off a
  stored row. The description stands for its hash: rows of one description have one hash,
  whatever the hash function.
\<close>

definition row_dedup_key ::
    "bug_report \<Rightarrow> uuid option \<times> string option \<times> string option \<times> string option" where
  "row_dedup_key b = (br_execution_id b, br_page_url b, br_bug_type b, br_description b)"

section \<open>A small store used as a concrete instance\<close>

text \<open>
  One project, one execution of it, two bug reports of that execution that agree on
  everything but their primary key, one performance metric and one accessibility issue.
\<close>

definition example_project :: test_project where
  "example_project =
     \<lparr>tp_id = 1, tp_name = ''shop'', tp_description = None, tp_base_url = ''https://example.com'',
      tp_owner_id = 7, tp_status = Some ''active'', tp_created_at = None, tp_updated_at = None\<rparr>"

definition example_execution :: test_execution where
  "example_execution =
     \<lparr>te_id = 2, te_project_id = 1, te_execution_date = None, te_status = Some ''running'',
      te_total_tests = Some 0, te_passed = Some 0, te_failed = Some 0, te_warnings = Some 0,
      te_duration_seconds = None, te_created_at = None\<rparr>"

definition example_bug :: "uuid \<Rightarrow> bug_report" where
  "example_bug i =
     \<lparr>br_id = i, br_project_id = 1, br_execution_id = Some 2, br_title = ''Broken link'',
      br_description = Some ''GET /missing returned 404'', br_severity = ''high'',
      br_status = Some ''open'', br_bug_type = Some ''broken_link'',
      br_page_url = Some ''https://example.com/'', br_steps_to_reproduce = None,
      br_expected_behavior = None, br_actual_behavior = None, br_browser_info = None,
      br_created_at = None, br_updated_at = None\<rparr>"

definition example_metric :: performance_metric where
  "example_metric =
     \<lparr>pm_id = 5, pm_execution_id = 2, pm_page_url = ''https://example.com/'',
      pm_page_load_time_ms = Some 1200, pm_first_contentful_paint_ms = None,
      pm_largest_contentful_paint_ms = None, pm_total_requests = None,
      pm_failed_requests = None, pm_total_size_kb = None, pm_resource_details = None,
      pm_created_at = None\<rparr>"

definition example_issue :: accessibility_issue where
  "example_issue =
     \<lparr>ai_id = 6, ai_execution_id = 2, ai_page_url = ''https://example.com/'',
      ai_issue_type = ''missing_alt_text'', ai_wcag_level = Some ''A'',
      ai_element_description = None, ai_severity = Some ''medium'', ai_recommendation = None,
      ai_created_at = None\<rparr>"

definition example_db :: database where
  "example_db =
     run_db_ops
       [InsertProject example_project, InsertExecution example_execution,
        InsertBugReport (example_bug 3), InsertBugReport (example_bug 4),
        InsertMetric example_metric, InsertIssue example_issue]
       empty_db"

text \<open>Requests used as concrete instances of the edge functions.\<close>

definition post_request :: "json \<Rightarrow> request" where
  "post_request payload = \<lparr>req_method = ''POST'', req_query = [], req_json = Inr payload\<rparr>"

definition get_request :: "(string \<times> string) list \<Rightarrow> request" where
  "get_request ps =
     \<lparr>req_method = ''GET'', req_query = ps,
      req_json = Inl (SyntaxError ''Unexpected end of JSON input'')\<rparr>"

section \<open>The Bug Detector\<close>

text \<open>
  Modelled from the spec: the bug taxonomy, the severities and the raw findings of
  sections 3 and 4.4. The Bug Detector's code is not among the sources. What a runner
  supplies to the severity lookup (an HTTP status, a network failure, a WCAG level, message
  content, a mark that the finding is informational) is the finding's evidence.
\<close>

datatype bug_type =
    BrokenImage | BrokenLink | ConsoleError | NetworkError | MissingAltText
  | FormValidationError | PerformanceIssue | SecurityIssue | LayoutIssue | MissingHeading
  | MissingLabel | InsufficientContrast | JavascriptError

text \<open>
  Modelled from the spec: the five severities of a BugReport (section 3).
\<close>

datatype severity = Critical | High | Medium | Low | Info

text \<open>
  Modelled from the spec: the WCAG level, A or AA, with which the Accessibility runner tags
  a finding (section 4.3).
\<close>

datatype wcag_level = WcagA | WcagAA

text \<open>
  Modelled from the spec: the evidence of a finding, read as the hints its runner supplies
  to the severity lookup (section 4.4).
\<close>

datatype evidence =
    HttpStatus nat
  | NetworkFailure
  | WcagViolation wcag_level
  | MessageContent string
  | Informational
  | NoEvidence

text \<open>
  Modelled from the spec: the raw Finding \<^verbatim>\<open>{page_url, category, severity,
  description, evidence}\<close> of section 3.
\<close>

record finding =
  f_page_url :: string
  f_category :: bug_type
  f_severity :: severity
  f_description :: string
  f_evidence :: evidence

text \<open>
  Modelled from the spec: the canonical BugReport as the Bug Detector returns it. Its id is
  given by the store on insert, and its title, reproduction steps and expected and actual
  behaviour are renderings of the description and the evidence, which the report carries.
\<close>

record detected_bug =
  db_execution_id :: uuid
  db_bug_type :: bug_type
  db_severity :: severity
  db_page_url :: string
  db_description :: string
  db_evidence :: evidence

text \<open>
  Modelled from the spec: what the spec leaves open in the Bug Detector is a parameter: the
  hash of a description, the severity a bug type has when no hint decides, and the known
  fatal patterns of console and network messages.
\<close>

record 'h detector_config =
  description_hash :: "string \<Rightarrow> 'h"
  severity_table :: "bug_type \<Rightarrow> severity"
  fatal_patterns :: "string list"

text \<open>Modelled from the spec: a message contains a pattern when the pattern is a substring of it.\<close>

fun starts_with :: "string \<Rightarrow> string \<Rightarrow> bool" where
  "starts_with [] s = True"
| "starts_with (p # ps) [] = False"
| "starts_with (p # ps) (c # cs) = (p = c \<and> starts_with ps cs)"

text \<open>
  Modelled from the spec: the pattern occurs somewhere in the message.
\<close>

fun contains_pattern :: "string \<Rightarrow> string \<Rightarrow> bool" where
  "contains_pattern p [] = (p = [])"
| "contains_pattern p (c # cs) = (starts_with p (c # cs) \<or> contains_pattern p cs)"

text \<open>
  Modelled from the spec: severity assignment, "a fixed lookup from bug_type plus
  runner-supplied hints": a 5xx broken link is critical, a 4xx broken link is high, an
  accessibility AA violation is medium, an informational finding is info, and a console or
  network error whose message contains a known fatal pattern is promoted to critical.
  Everything else has the severity of its bug type.
\<close>

definition assign_severity :: "'h detector_config \<Rightarrow> bug_type \<Rightarrow> evidence \<Rightarrow> severity" where
  "assign_severity cfg bt ev =
     (case ev of
        HttpStatus s \<Rightarrow>
          if bt = BrokenLink \<and> 500 \<le> s \<and> s < 600 then Critical
          else if bt = BrokenLink \<and> 400 \<le> s \<and> s < 500 then High
          else severity_table cfg bt
      | NetworkFailure \<Rightarrow> severity_table cfg bt
      | WcagViolation l \<Rightarrow> if l = WcagAA then Medium else severity_table cfg bt
      | MessageContent m \<Rightarrow>
          if (bt = ConsoleError \<or> bt = NetworkError) \<and>
             list_ex (\<lambda>p. contains_pattern p m) (fatal_patterns cfg)
          then Critical
          else severity_table cfg bt
      | Informational \<Rightarrow> Info
      | NoEvidence \<Rightarrow> severity_table cfg bt)"

text \<open>Modelled from the spec: the BugReport a finding becomes.\<close>

definition to_bug_report :: "'h detector_config \<Rightarrow> uuid \<Rightarrow> finding \<Rightarrow> detected_bug" where
  "to_bug_report cfg e f =
     \<lparr>db_execution_id = e,
      db_bug_type = f_category f,
      db_severity = assign_severity cfg (f_category f) (f_evidence f),
      db_page_url = f_page_url f,
      db_description = f_description f,
      db_evidence = f_evidence f\<rparr>"

text \<open>
  Modelled from the spec: the deduplication key (execution_id, page_url, bug_type,
  description-hash), of a finding under an execution and of a BugReport.
\<close>

definition finding_key ::
    "'h detector_config \<Rightarrow> uuid \<Rightarrow> finding \<Rightarrow> uuid \<times> string \<times> bug_type \<times> 'h" where
  "finding_key cfg e f = (e, f_page_url f, f_category f, description_hash cfg (f_description f))"

text \<open>
  Modelled from the spec: the deduplication key of a BugReport.
\<close>

definition bug_key :: "'h detector_config \<Rightarrow> detected_bug \<Rightarrow> uuid \<times> string \<times> bug_type \<times> 'h" where
  "bug_key cfg b =
     (db_execution_id b, db_page_url b, db_bug_type b, description_hash cfg (db_description b))"

text \<open>
  Modelled from the spec: "first occurrence in canonical ordering wins ...; subsequent
  duplicates are discarded". The list is in canonical order (runner execution order, then
  DOM order); \<open>seen\<close> holds the keys already taken.
\<close>

fun first_occurrences :: "('a \<Rightarrow> 'k) \<Rightarrow> 'k list \<Rightarrow> 'a list \<Rightarrow> 'a list" where
  "first_occurrences key seen [] = []"
| "first_occurrences key seen (x # xs) =
     (if key x \<in> set seen then first_occurrences key seen xs
      else x # first_occurrences key (key x # seen) xs)"

text \<open>Modelled from the spec: \<^verbatim>\<open>classify(findings, execution_id) -> list<BugReport>\<close>.\<close>

definition classify :: "'h detector_config \<Rightarrow> finding list \<Rightarrow> uuid \<Rightarrow> detected_bug list" where
  "classify cfg findings e =
     map (to_bug_report cfg e) (first_occurrences (finding_key cfg e) [] findings)"

section \<open>The Broken-Links runner\<close>








section \<open>The Orchestrator\<close>

text \<open>
  Modelled from the spec: the five test types, the failures of section 7 and the state
  machine of an Execution (section 4.5). The Orchestrator's code is not among the sources.
\<close>

datatype test_type = Functional | Performance | Accessibility | BrokenLinks | FormValidation

text \<open>
  Modelled from the spec: the error taxonomy of section 7 (SchedulerSkipped, which is logged
  and is no error, is an event of the Scheduler below).
\<close>

datatype failure =
    NavigationTimeout
  | NavigationError string
  | RunnerInternalError string
  | SessionResourceError string

text \<open>
  Modelled from the spec: the states of an Execution, \<^verbatim>\<open>pending -> running
  -> {completed | failed}\<close>.
\<close>

datatype exec_status = Pending | Running | Completed | Failed

text \<open>
  Modelled from the spec: what running one test type against the site gives the
  Orchestrator: the runner's findings (a runner that fails internally has already turned
  that into a finding), or an exception that nothing below the Orchestrator handled.
\<close>

datatype 'f runner_result = Findings "'f list" | Raised failure

text \<open>
  Modelled from the spec: the Execution result the caller receives, and the writes the
  Orchestrator makes to the store, in order. The running totals are left out: no property
  proved here reads them.
\<close>

record 'b execution =
  ex_id :: uuid
  ex_project_id :: uuid
  ex_status :: exec_status
  ex_error :: "failure option"
  ex_bug_reports :: "'b list"

text \<open>
  Modelled from the spec: the writes of the Orchestrator to the store: the Execution record
  it creates, the flush of the BugReports, and a status transition with its recorded cause.
\<close>

datatype 'b store_write =
    CreateExecution uuid uuid exec_status
  | FlushBugReports uuid "'b list"
  | SetStatus uuid exec_status "failure option"

text \<open>
  Modelled from the spec: step 2 of \<^verbatim>\<open>run_complete_qa_suite\<close>: the requested test types
  run one after the other; the first unhandled exception ends the sequence.
\<close>

fun run_test_types :: "(test_type \<Rightarrow> 'f runner_result) \<Rightarrow> test_type list \<Rightarrow> failure + 'f list" where
  "run_test_types world [] = Inr []"
| "run_test_types world (t # ts) =
     (case world t of
        Raised err \<Rightarrow> Inl err
      | Findings fs \<Rightarrow>
          (case run_test_types world ts of
             Inl err \<Rightarrow> Inl err
           | Inr gs \<Rightarrow> Inr (fs @ gs)))"

text \<open>
  Modelled from the spec: \<^verbatim>\<open>run_complete_qa_suite(project_id, base_url, test_types)\<close>,
  steps 1 to 4. \<open>world\<close> is the site behind a base URL as the runners meet it,
  \<open>detect\<close> the Bug Detector, \<open>e\<close> the id of the Execution record the call creates.
\<close>

definition run_complete_qa_suite ::
    "(string \<Rightarrow> test_type \<Rightarrow> 'f runner_result) \<Rightarrow> ('f list \<Rightarrow> uuid \<Rightarrow> 'b list) \<Rightarrow> uuid \<Rightarrow>
     uuid \<Rightarrow> string \<Rightarrow> test_type list \<Rightarrow> 'b execution \<times> 'b store_write list" where
  "run_complete_qa_suite world detect e project_id base_url test_types =
     (let created =
            \<lparr>ex_id = e, ex_project_id = project_id, ex_status = Running, ex_error = None,
             ex_bug_reports = []\<rparr>
      in case run_test_types (world base_url) test_types of
           Inl err \<Rightarrow>
             (created\<lparr>ex_status := Failed, ex_error := Some err\<rparr>,
              [CreateExecution e project_id Running, SetStatus e Failed (Some err)])
         | Inr findings \<Rightarrow>
             (let bugs = detect findings e
              in (created\<lparr>ex_status := Completed, ex_bug_reports := bugs\<rparr>,
                  [CreateExecution e project_id Running, FlushBugReports e bugs,
                   SetStatus e Completed None])))"

text \<open>Modelled from the spec: the statuses an Execution has had, read off the writes.\<close>

fun status_history :: "uuid \<Rightarrow> 'b store_write list \<Rightarrow> exec_status list" where
  "status_history e [] = []"
| "status_history e (CreateExecution x p s # ws) =
     (if x = e then s # status_history e ws else status_history e ws)"
| "status_history e (SetStatus x s err # ws) =
     (if x = e then s # status_history e ws else status_history e ws)"
| "status_history e (FlushBugReports x bs # ws) = status_history e ws"

section \<open>The Scheduler\<close>

text \<open>
  Modelled from the spec: a cron expression in "standard five-field (minute hour day month
  weekday) cron syntax". A field is a comma-separated list of items: \<^verbatim>\<open>*\<close>, \<^verbatim>\<open>*/n\<close>,
  \<^verbatim>\<open>a\<close>, \<^verbatim>\<open>a-b\<close> or \<^verbatim>\<open>a-b/n\<close>. The Scheduler's code is not among the sources.
\<close>

datatype cron_item = Star | StarStep nat | Single nat | Span nat nat | SpanStep nat nat nat

text \<open>
  Modelled from the spec: the five fields of an expression.
\<close>

record cron =
  cron_minute :: "cron_item list"
  cron_hour :: "cron_item list"
  cron_day :: "cron_item list"
  cron_month :: "cron_item list"
  cron_weekday :: "cron_item list"

text \<open>Modelled from the spec: reading the expression.\<close>

fun split_on :: "char \<Rightarrow> string \<Rightarrow> string list" where
  "split_on sep [] = [[]]"
| "split_on sep (c # cs) =
     (case split_on sep cs of
        [] \<Rightarrow> [[c]]
      | w # ws \<Rightarrow> if c = sep then [] # w # ws else (c # w) # ws)"

text \<open>
  Modelled from the spec: a decimal digit.
\<close>

definition is_digit :: "char \<Rightarrow> bool" where
  "is_digit c = (48 \<le> (of_char c :: nat) \<and> (of_char c :: nat) \<le> 57)"

text \<open>
  Modelled from the spec: a number in a field, a non-empty run of digits.
\<close>

definition parse_nat :: "string \<Rightarrow> nat option" where
  "parse_nat s =
     (if s \<noteq> [] \<and> list_all is_digit s
      then Some (foldl (\<lambda>n c. 10 * n + (of_char c - 48)) 0 s)
      else None)"

text \<open>
  Modelled from the spec: an item without a step: \<^verbatim>\<open>*\<close>,
  \<^verbatim>\<open>a\<close> or \<^verbatim>\<open>a-b\<close>.
\<close>

definition parse_base :: "string \<Rightarrow> cron_item option" where
  "parse_base s =
     (if s = ''*'' then Some Star
      else case split_on CHR ''-'' s of
             [a] \<Rightarrow> map_option Single (parse_nat a)
           | [a, b] \<Rightarrow>
               (case (parse_nat a, parse_nat b) of
                  (Some x, Some y) \<Rightarrow> Some (Span x y)
                | _ \<Rightarrow> None)
           | _ \<Rightarrow> None)"

text \<open>
  Modelled from the spec: an item, with an optional step \<^verbatim>\<open>/n\<close> after
  \<^verbatim>\<open>*\<close> or a range.
\<close>

definition parse_item :: "string \<Rightarrow> cron_item option" where
  "parse_item s =
     (case split_on CHR ''/'' s of
        [b] \<Rightarrow> parse_base b
      | [b, n] \<Rightarrow>
          (case (parse_base b, parse_nat n) of
             (Some Star, Some k) \<Rightarrow> Some (StarStep k)
           | (Some (Span x y), Some k) \<Rightarrow> Some (SpanStep x y k)
           | _ \<Rightarrow> None)
      | _ \<Rightarrow> None)"

text \<open>
  Modelled from the spec: a list parses when each of its parts does.
\<close>

fun all_some :: "'a option list \<Rightarrow> 'a list option" where
  "all_some [] = Some []"
| "all_some (None # xs) = None"
| "all_some (Some x # xs) = map_option (Cons x) (all_some xs)"

text \<open>
  Modelled from the spec: a field, its items separated by commas.
\<close>

definition parse_field :: "string \<Rightarrow> cron_item list option" where
  "parse_field s = all_some (map parse_item (split_on CHR '','' s))"

text \<open>
  Modelled from the spec: an expression, exactly five fields separated by blanks.
\<close>

definition parse_cron :: "string \<Rightarrow> cron option" where
  "parse_cron s =
     (case all_some (map parse_field (filter (\<lambda>w. w \<noteq> []) (split_on CHR '' '' s))) of
        Some [mi, h, d, mo, w] \<Rightarrow>
          Some \<lparr>cron_minute = mi, cron_hour = h, cron_day = d, cron_month = mo, cron_weekday = w\<rparr>
      | _ \<Rightarrow> None)"

text \<open>
  Modelled from the spec: time is counted in minutes from 1970-01-01 00:00 UTC, a
  Thursday; weekday 0 is Sunday. The calendar date of a day count is the proleptic
  Gregorian one.
\<close>

definition minute_of :: "nat \<Rightarrow> nat" where
  "minute_of t = t mod 60"

text \<open>
  Modelled from the spec: the hour of the day of a time.
\<close>

definition hour_of :: "nat \<Rightarrow> nat" where
  "hour_of t = (t div 60) mod 24"

text \<open>
  Modelled from the spec: the weekday of a time, 0 for Sunday.
\<close>

definition weekday_of :: "nat \<Rightarrow> nat" where
  "weekday_of t = (t div 1440 + 4) mod 7"

text \<open>
  Modelled from the spec: the year, month and day of a count of days from 1970-01-01.
\<close>

definition civil_of_days :: "nat \<Rightarrow> nat \<times> nat \<times> nat" where
  "civil_of_days days =
     (let z = days + 719468;
          era = z div 146097;
          doe = z mod 146097;
          yoe = (doe - doe div 1460 + doe div 36524 - doe div 146096) div 365;
          doy = doe - (365 * yoe + yoe div 4 - yoe div 100);
          mp = (5 * doy + 2) div 153;
          d = doy - (153 * mp + 2) div 5 + 1;
          m = (if mp < 10 then mp + 3 else mp - 9);
          y = yoe + era * 400 + (if m \<le> 2 then 1 else 0)
      in (y, m, d))"

text \<open>
  Modelled from the spec: the month of a time, from 1.
\<close>

definition month_of :: "nat \<Rightarrow> nat" where
  "month_of t = fst (snd (civil_of_days (t div 1440)))"

text \<open>
  Modelled from the spec: the day of the month of a time, from 1.
\<close>

definition day_of :: "nat \<Rightarrow> nat" where
  "day_of t = snd (snd (civil_of_days (t div 1440)))"

text \<open>
  Modelled from the spec: when a field admits a value. \<open>lo\<close> is the least value of the
  field (0 for minute, hour and weekday, 1 for day and month), from which \<^verbatim>\<open>*/n\<close>
  steps.
\<close>

fun item_matches :: "nat \<Rightarrow> cron_item \<Rightarrow> nat \<Rightarrow> bool" where
  "item_matches lo Star v = True"
| "item_matches lo (StarStep n) v = (0 < n \<and> (v - lo) mod n = 0)"
| "item_matches lo (Single x) v = (v = x)"
| "item_matches lo (Span a b) v = (a \<le> v \<and> v \<le> b)"
| "item_matches lo (SpanStep a b n) v = (0 < n \<and> a \<le> v \<and> v \<le> b \<and> (v - a) mod n = 0)"

text \<open>
  Modelled from the spec: a field admits a value when one of its items does.
\<close>

definition field_matches :: "nat \<Rightarrow> cron_item list \<Rightarrow> nat \<Rightarrow> bool" where
  "field_matches lo items v = list_ex (\<lambda>i. item_matches lo i v) items"

text \<open>
  Modelled from the spec: a minute matches when minute, hour and month match and the day
  matches: by both day fields when one of them is \<^verbatim>\<open>*\<close>, by either when both are
  restricted (the standard rule); weekday 7 is Sunday too.
\<close>

definition weekday_matches :: "cron_item list \<Rightarrow> nat \<Rightarrow> bool" where
  "weekday_matches items w = (field_matches 0 items w \<or> (w = 0 \<and> field_matches 0 items 7))"

text \<open>
  Modelled from the spec: the minutes an expression matches.
\<close>

definition cron_matches :: "cron \<Rightarrow> nat \<Rightarrow> bool" where
  "cron_matches c t =
     (field_matches 0 (cron_minute c) (minute_of t) \<and>
      field_matches 0 (cron_hour c) (hour_of t) \<and>
      field_matches 1 (cron_month c) (month_of t) \<and>
      (if Star \<in> set (cron_day c) \<or> Star \<in> set (cron_weekday c)
       then field_matches 1 (cron_day c) (day_of t) \<and>
            weekday_matches (cron_weekday c) (weekday_of t)
       else field_matches 1 (cron_day c) (day_of t) \<or>
            weekday_matches (cron_weekday c) (weekday_of t)))"

text \<open>
  Modelled from the spec: next_run is the first matching minute after the fire, looked
  for over eight years of minutes (an expression that matches at all matches within them).
\<close>

fun first_match :: "(nat \<Rightarrow> bool) \<Rightarrow> nat \<Rightarrow> nat \<Rightarrow> nat option" where
  "first_match P 0 t = None"
| "first_match P (Suc fuel) t = (if P t then Some t else first_match P fuel (Suc t))"

text \<open>
  Modelled from the spec: the number of minutes searched for next_run.
\<close>

definition horizon :: nat where
  "horizon = 8 * 366 * 1440"

text \<open>
  Modelled from the spec: the first minute after \<open>now\<close> that the expression
  matches.
\<close>

definition cron_next :: "cron \<Rightarrow> nat \<Rightarrow> nat option" where
  "cron_next c now = first_match (cron_matches c) horizon (Suc now)"

text \<open>
  Modelled from the spec: next_run "recomputed from each cron-like expression after every
  fire"; an expression that does not parse has none.
\<close>

definition next_run_of :: "string \<Rightarrow> nat \<Rightarrow> nat option" where
  "next_run_of expr now = (case parse_cron expr of None \<Rightarrow> None | Some c \<Rightarrow> cron_next c now)"

text \<open>
  Modelled from the spec: a Schedule, and the Scheduler's state: the schedules and the
  projects whose invocation has not returned yet.
\<close>

record schedule =
  sch_project_id :: uuid
  sch_cron_expression :: string
  sch_enabled :: bool
  sch_last_run :: "nat option"
  sch_next_run :: "nat option"

text \<open>
  Modelled from the spec: the Scheduler's process-wide state.
\<close>

record scheduler =
  schedules :: "schedule list"
  running :: "uuid list"

text \<open>
  Modelled from the spec: what a tick does with one Schedule: nothing (it is not due), an
  invocation of the Orchestrator for its project, or the logged SchedulerSkipped.
\<close>

datatype tick_outcome = NotDue | Invoked | SchedulerSkipped

text \<open>Modelled from the spec: a Schedule is due when it is enabled and next_run <= now.\<close>

definition is_due :: "nat \<Rightarrow> schedule \<Rightarrow> bool" where
  "is_due now s =
     (sch_enabled s \<and> (case sch_next_run s of None \<Rightarrow> False | Some t \<Rightarrow> t \<le> now))"

text \<open>
  Modelled from the spec: a tick at one Schedule; \<open>busy\<close> are the projects with an
  invocation that has not returned. A Schedule that is not due is left alone. A due
  Schedule whose project is busy is "skipped (not queued)": no invocation is made, last_run
  is unchanged, and next_run moves on to the next minute the expression matches, so that
  the missed trigger is not made up once the project is free. Otherwise the Orchestrator is
  invoked, last_run is set and next_run recomputed.
\<close>

definition fire :: "nat \<Rightarrow> uuid list \<Rightarrow> schedule \<Rightarrow> schedule \<times> uuid list \<times> tick_outcome" where
  "fire now busy s =
     (if \<not> is_due now s then (s, busy, NotDue)
      else if sch_project_id s \<in> set busy then
        (s\<lparr>sch_next_run := next_run_of (sch_cron_expression s) now\<rparr>, busy, SchedulerSkipped)
      else
        (s\<lparr>sch_last_run := Some now,
            sch_next_run := next_run_of (sch_cron_expression s) now\<rparr>,
         sch_project_id s # busy,
         Invoked))"

text \<open>
  Modelled from the spec: a tick goes through the Schedules in order; the outcomes are
  listed in the order of the Schedules.
\<close>

fun fire_all ::
    "nat \<Rightarrow> uuid list \<Rightarrow> schedule list \<Rightarrow> schedule list \<times> uuid list \<times> tick_outcome list" where
  "fire_all now busy [] = ([], busy, [])"
| "fire_all now busy (s # ss) =
     (case fire now busy s of
        (s', busy', out) \<Rightarrow>
          (case fire_all now busy' ss of
             (ss', busy'', outs) \<Rightarrow> (s' # ss', busy'', out # outs)))"

text \<open>
  Modelled from the spec: the projects that are busy when the tick reaches the Schedule at
  a position: those running before the tick and those the tick has invoked so far.
\<close>

fun busy_at :: "nat \<Rightarrow> uuid list \<Rightarrow> schedule list \<Rightarrow> nat \<Rightarrow> uuid list" where
  "busy_at now busy [] i = busy"
| "busy_at now busy (s # ss) 0 = busy"
| "busy_at now busy (s # ss) (Suc i) = busy_at now (fst (snd (fire now busy s))) ss i"

text \<open>
  Modelled from the spec: a tick of the Scheduler at time \<open>now\<close>: the new state and the
  outcome for each Schedule.
\<close>

definition tick :: "nat \<Rightarrow> scheduler \<Rightarrow> scheduler \<times> tick_outcome list" where
  "tick now st =
     (case fire_all now (running st) (schedules st) of
        (ss, busy, outs) \<Rightarrow> (\<lparr>schedules = ss, running = busy\<rparr>, outs))"

text \<open>Modelled from the spec: the Orchestrator's return ends the project's invocation.\<close>

definition invocation_returned :: "uuid \<Rightarrow> scheduler \<Rightarrow> scheduler" where
  "invocation_returned p st = st\<lparr>running := removeAll p (running st)\<rparr>"

section \<open>Concrete instances of the modelled components\<close>

text \<open>
  A detector configuration with a checksum for the description hash; a page with links
  that answer 200, 301 (to the 200), 404 and 500, two of them repeated; findings with a
  repeated key.
\<close>

definition example_config :: "nat detector_config" where
  "example_config =
     \<lparr>description_hash = (\<lambda>d. sum_list (map of_char d)),
      severity_table = (\<lambda>bt. Low),
      fatal_patterns = [''Maximum call stack size exceeded'', ''out of memory'']\<rparr>"





definition example_finding :: "string \<Rightarrow> severity \<Rightarrow> string \<Rightarrow> nat \<Rightarrow> finding" where
  "example_finding url sev href code =
     \<lparr>f_page_url = url, f_category = BrokenLink, f_severity = sev,
      f_description = ''Broken link: '' @ href, f_evidence = HttpStatus code\<rparr>"

definition example_findings :: "finding list" where
  "example_findings =
     [example_finding ''https://example.com/'' Medium ''/missing'' 404,
      example_finding ''https://example.com/'' Medium ''/boom'' 500,
      example_finding ''https://example.com/'' Low ''/missing'' 410]"

text \<open>
  A site on which the Accessibility runner meets a session failure and the Functional
  runner returns two findings.
\<close>

definition example_world :: "string \<Rightarrow> test_type \<Rightarrow> nat runner_result" where
  "example_world url t =
     (if t = Accessibility then Raised (SessionResourceError ''browser closed'')
      else if t = Functional then Findings [1, 2]
      else Findings [])"

text \<open>
  Two half-hourly schedules due at minute 28401840 (2024-01-01 12:00 UTC); an invocation
  for project 8 is still running.
\<close>

definition example_scheduler :: scheduler where
  "example_scheduler =
     \<lparr>schedules =
        [\<lparr>sch_project_id = 1, sch_cron_expression = ''*/30 * * * *'', sch_enabled = True,
          sch_last_run = Some 28401810, sch_next_run = Some 28401840\<rparr>,
         \<lparr>sch_project_id = 8, sch_cron_expression = ''*/30 * * * *'', sch_enabled = True,
          sch_last_run = Some 28401810, sch_next_run = Some 28401840\<rparr>],
      running = [8]\<rparr>"

section \<open>What JSON.stringify writes\<close>

declare array_index.simps [simp del]

lemma array_index_non_digit: "\<not> js_digit c \<Longrightarrow> array_index (c # cs) = None"
  by (simp add: array_index.simps)

lemma map_of_rev_distinct:
  "distinct (map fst kvs) \<Longrightarrow> map_of (rev kvs) = map_of kvs"
proof (induction kvs)
  case Nil
  then show ?case by simp
next
  case (Cons kv kvs)
  obtain k v where kv: "kv = (k, v)" by (cases kv)
  from Cons.prems kv have "map_of kvs k = None"
    by (simp add: map_of_eq_None_iff)
  then have "[k \<mapsto> v] ++ map_of kvs = (map_of kvs)(k \<mapsto> v)"
    by (auto simp: map_add_def split: option.splits)
  with Cons kv show ?case by simp
qed

lemma map_filter_lookup_distinct:
  "distinct (map fst kvs) \<Longrightarrow>
   List.map_filter (\<lambda>k. map_option (Pair k) (map_of kvs k)) (map fst kvs) = kvs"
proof (induction kvs)
  case Nil
  then show ?case by (simp add: List.map_filter_simps)
next
  case (Cons kv kvs)
  obtain k v where kv: "kv = (k, v)" by (cases kv)
  from Cons.prems kv have nk: "k \<notin> fst ` set kvs" by simp
  have "List.map_filter (\<lambda>k'. map_option (Pair k') (map_of ((k, v) # kvs) k')) (map fst kvs) =
        List.map_filter (\<lambda>k'. map_option (Pair k') (map_of kvs k')) (map fst kvs)"
    unfolding List.map_filter_def using nk
    by (intro arg_cong [where f = "map _"] filter_cong refl map_cong) (auto simp: image_iff)
  with Cons kv show ?case by (simp add: List.map_filter_simps)
qed

lemma js_own_keys_plain:
  assumes "distinct (map fst kvs)" and "list_all (\<lambda>k. array_index k = None) (map fst kvs)"
  shows "js_own_keys kvs = map fst kvs"
proof -
  from assms(1) have "rev (remdups (rev (map fst kvs))) = map fst kvs"
    by (simp add: distinct_remdups_id)
  moreover from assms(2) have "filter (\<lambda>k. array_index k = None) (map fst kvs) = map fst kvs"
    "filter (\<lambda>k. array_index k \<noteq> None) (map fst kvs) = []"
    by (simp_all add: list_all_iff)
  ultimately show ?thesis
    by (simp add: js_own_keys_def Let_def)
qed

lemma js_object_plain:
  assumes "distinct (map fst kvs)" and "list_all (\<lambda>k. array_index k = None) (map fst kvs)"
  shows "js_object kvs = kvs"
  using assms
  by (simp add: js_object_def js_own_keys_plain map_of_rev_distinct map_filter_lookup_distinct)

lemma non_digits:
  "\<not> js_digit CHR ''s''" "\<not> js_digit CHR ''p''" "\<not> js_digit CHR ''m''"
  "\<not> js_digit CHR ''t''" "\<not> js_digit CHR ''e''"
  by (simp_all add: js_digit_def)

lemma stringify_acknowledgement:
  "stringify_value
     (JObj [(''status'', JStr ''started''), (''project_id'', pid),
            (''message'', JStr ''QA test suite initiated. Check database for updates.''),
            (''timestamp'', JStr now)]) =
   JObj [(''status'', JStr ''started''), (''project_id'', stringify_value pid),
         (''message'', JStr ''QA test suite initiated. Check database for updates.''),
         (''timestamp'', JStr now)]"
  by (simp add: js_object_plain array_index_non_digit non_digits)

lemma stringify_error_object:
  "stringify_value (JObj [(''error'', JStr m)]) = JObj [(''error'', JStr m)]"
  by (simp add: js_object_plain array_index_non_digit non_digits)

lemma stringify_plain_scalar: "plain_scalar v \<Longrightarrow> stringify_value v = v"
  by (induction v rule: plain_scalar.induct) simp_all

text \<open>
  Keys are written in property order and an infinity as \<^verbatim>\<open>null\<close>: the document
  \<^verbatim>\<open>{"b": 1e400, "10": null, "a": true, "2": "x", "b": [-1e400, 3], "01": null}\<close> is
  written back as \<^verbatim>\<open>{"2": "x", "10": null, "b": [null, 3], "a": true, "01": null}\<close>.
\<close>

lemma stringify_value_example:
  "stringify_value
     (JObj [(''b'', JNum PosInfinity), (''10'', JNull), (''a'', JBool True), (''2'', JStr ''x''),
            (''b'', JArr [JNum NegInfinity, JNum (Finite 3)]), (''01'', JNull)]) =
   JObj [(''2'', JStr ''x''), (''10'', JNull), (''b'', JArr [JNull, JNum (Finite 3)]),
         (''a'', JBool True), (''01'', JNull)]"
  by (simp add: js_object_def js_own_keys_def js_digit_def js_decimal_def array_index.simps
      List.map_filter_simps)

section \<open>The test-run request endpoint\<close>

lemma get_prop_not_null:
  "payload \<noteq> JNull \<Longrightarrow> \<exists>v. get_prop payload k = Inr v \<and> js_not v = missing_or_falsy payload k"
  by (cases payload) (auto simp: missing_or_falsy_def split: option.splits)

lemma missing_required_fields_not_null:
  assumes "payload \<noteq> JNull"
  shows "missing_required_fields payload =
           Inr (missing_or_falsy payload ''project_id'' \<or> missing_or_falsy payload ''base_url'')"
proof -
  obtain p where p: "get_prop payload ''project_id'' = Inr p"
      "js_not p = missing_or_falsy payload ''project_id''"
    using get_prop_not_null [OF assms] by blast
  obtain b where b: "get_prop payload ''base_url'' = Inr b"
      "js_not b = missing_or_falsy payload ''base_url''"
    using get_prop_not_null [OF assms] by blast
  show ?thesis
    using p b by (simp add: missing_required_fields_def)
qed

lemma map_of_rev_filter_other:
  "k \<noteq> t \<Longrightarrow> map_of (rev (filter (\<lambda>(k', v). k' \<noteq> t) kvs)) k = map_of (rev kvs) k"
  by (induction kvs) (auto simp: map_add_def split: option.splits)

lemma missing_required_fields_without_test_types:
  "missing_required_fields (JObj (filter (\<lambda>(k, v). k \<noteq> ''test_types'') kvs)) =
   missing_required_fields (JObj kvs)"
  by (simp add: missing_required_fields_def map_of_rev_filter_other)

lemma qa_test_runner_without_test_types:
  "qa_test_runner now (req\<lparr>req_json := Inr (JObj (filter (\<lambda>(k, v). k \<noteq> ''test_types'') kvs))\<rparr>) =
   qa_test_runner now (req\<lparr>req_json := Inr (JObj kvs)\<rparr>)"
  by (simp add: qa_test_runner_def qa_test_runner_try_def
      missing_required_fields_without_test_types map_of_rev_filter_other split: sum.splits)

text \<open>
  Claim C2, as amended. For every POST request to the test-run request endpoint whose
  JSON body has a truthy \<^verbatim>\<open>project_id\<close> and a truthy \<^verbatim>\<open>base_url\<close> property (of a
  repeated key the last member is the property), the handler answers with status 202 and
  a body holding status "started", the project_id as \<^verbatim>\<open>JSON.stringify\<close> writes it and
  the timestamp of the clock. What is written is the same project_id whenever it is a
  string, a boolean or a finite number; an infinite number is written \<^verbatim>\<open>null\<close> and an
  object with its keys in property order. The answer is computed from the request and the
  clock alone: the handler starts no pipeline and waits for none.
\<close>

theorem qa_test_runner_acknowledges:
  assumes "req_method req = ''POST''"
    and "req_json req = Inr payload"
    and "get_prop payload ''project_id'' = Inr (Some pid)" and "truthy pid"
    and "get_prop payload ''base_url'' = Inr (Some burl)" and "truthy burl"
  shows "status (qa_test_runner now req) = 202 \<and>
         resp_body (qa_test_runner now req) =
           Some (JObj [(''status'', JStr ''started''),
                       (''project_id'', stringify_value pid),
                       (''message'', JStr ''QA test suite initiated. Check database for updates.''),
                       (''timestamp'', JStr now)]) \<and>
         (plain_scalar pid \<longrightarrow> stringify_value pid = pid)"
  using assms
  by (simp add: qa_test_runner_def qa_test_runner_try_def missing_required_fields_def
      object_literal_def List.map_filter_simps json_response_def stringify_acknowledgement
      stringify_plain_scalar del: stringify_value.simps)

theorem qa_test_runner_acknowledges_witness:
  "status (qa_test_runner ''2024-01-01T12:00:00.000Z''
     (post_request (JObj [(''project_id'', JStr ''project-123''),
                          (''base_url'', JStr ''https://example.com''),
                          (''test_types'', JArr [JStr ''functional''])]))) = 202 \<and>
   resp_body (qa_test_runner ''2024-01-01T12:00:00.000Z''
     (post_request (JObj [(''project_id'', JStr ''project-123''),
                          (''base_url'', JStr ''https://example.com''),
                          (''test_types'', JArr [JStr ''functional''])]))) =
     Some (JObj [(''status'', JStr ''started''),
                 (''project_id'', JStr ''project-123''),
                 (''message'', JStr ''QA test suite initiated. Check database for updates.''),
                 (''timestamp'', JStr ''2024-01-01T12:00:00.000Z'')])"
  using qa_test_runner_acknowledges
        [where payload = "JObj [(''project_id'', JStr ''project-123''),
                                (''base_url'', JStr ''https://example.com''),
                                (''test_types'', JArr [JStr ''functional''])]"
           and req = "post_request (JObj [(''project_id'', JStr ''project-123''),
                                (''base_url'', JStr ''https://example.com''),
                                (''test_types'', JArr [JStr ''functional''])])"
           and pid = "JStr ''project-123''"
           and burl = "JStr ''https://example.com''"
           and now = "''2024-01-01T12:00:00.000Z''"]
  by (simp add: post_request_def)

text \<open>
  A project_id that is not written back as it was read: the literal \<^verbatim>\<open>1e400\<close> is an
  infinity, which is truthy, and the acknowledgement holds \<^verbatim>\<open>null\<close> for it.
\<close>

lemma qa_test_runner_infinite_project_id:
  "status (qa_test_runner now
     (post_request (JObj [(''project_id'', JNum PosInfinity), (''base_url'', JStr ''u'')]))) = 202 \<and>
   resp_body (qa_test_runner now
     (post_request (JObj [(''project_id'', JNum PosInfinity), (''base_url'', JStr ''u'')]))) =
     Some (JObj [(''status'', JStr ''started''),
                 (''project_id'', JNull),
                 (''message'', JStr ''QA test suite initiated. Check database for updates.''),
                 (''timestamp'', JStr now)])"
  by (simp add: qa_test_runner_def qa_test_runner_try_def missing_required_fields_def
      object_literal_def List.map_filter_simps json_response_def post_request_def
      js_object_plain array_index_non_digit non_digits)

text \<open>
  The claim as written fails: a body that contains a \<^verbatim>\<open>project_id\<close> and a
  \<^verbatim>\<open>base_url\<close>, the first of them the empty string, is answered with status 400.
\<close>

theorem qa_test_runner_empty_project_id_counterexample:
  "get_prop (JObj [(''project_id'', JStr ''''), (''base_url'', JStr ''https://example.com'')])
      ''project_id'' = Inr (Some (JStr '''')) \<and>
   get_prop (JObj [(''project_id'', JStr ''''), (''base_url'', JStr ''https://example.com'')])
      ''base_url'' = Inr (Some (JStr ''https://example.com'')) \<and>
   status (qa_test_runner ''2024-01-01T12:00:00.000Z''
     (post_request (JObj [(''project_id'', JStr ''''),
                          (''base_url'', JStr ''https://example.com'')]))) = 400"
  by (simp add: qa_test_runner_def qa_test_runner_try_def missing_required_fields_def
      post_request_def json_response_def)

text \<open>
  Claim C9, as amended. For every POST request to the test-run request endpoint whose
  body parses to a JSON value other than \<^verbatim>\<open>null\<close>, the handler returns status 400, with
  the error body, exactly when \<^verbatim>\<open>project_id\<close> or \<^verbatim>\<open>base_url\<close> is missing or falsy in
  the body, and status 202 otherwise. The \<^verbatim>\<open>test_types\<close> field is never validated:
  taking it out of the body leaves the response as it is.
\<close>

theorem qa_test_runner_validation:
  assumes "req_method req = ''POST''" and "req_json req = Inr payload" and "payload \<noteq> JNull"
  shows "status (qa_test_runner now req) =
           (if missing_or_falsy payload ''project_id'' \<or> missing_or_falsy payload ''base_url''
            then 400 else 202) \<and>
         (status (qa_test_runner now req) = 400 \<longleftrightarrow>
            resp_body (qa_test_runner now req) =
              Some (JObj [(''error'', JStr ''Missing required fields: project_id, base_url'')])) \<and>
         (\<forall>kvs. payload = JObj kvs \<longrightarrow>
            qa_test_runner now
              (req\<lparr>req_json := Inr (JObj (filter (\<lambda>(k, v). k \<noteq> ''test_types'') kvs))\<rparr>) =
            qa_test_runner now req)"
proof -
  obtain p where p: "get_prop payload ''project_id'' = Inr p"
    using get_prop_not_null [OF assms(3)] by blast
  have st: "status (qa_test_runner now req) =
           (if missing_or_falsy payload ''project_id'' \<or> missing_or_falsy payload ''base_url''
            then 400 else 202)"
    using assms p
    by (simp add: qa_test_runner_def qa_test_runner_try_def missing_required_fields_not_null
        json_response_def)
  have body: "status (qa_test_runner now req) = 400 \<longleftrightarrow>
           resp_body (qa_test_runner now req) =
             Some (JObj [(''error'', JStr ''Missing required fields: project_id, base_url'')])"
    using assms p
    by (cases p)
      (simp_all add: qa_test_runner_def qa_test_runner_try_def missing_required_fields_not_null
        json_response_def object_literal_def List.map_filter_simps js_object_plain
        array_index_non_digit non_digits)
  have "qa_test_runner now
          (req\<lparr>req_json := Inr (JObj (filter (\<lambda>(k, v). k \<noteq> ''test_types'') kvs))\<rparr>) =
        qa_test_runner now req" if "payload = JObj kvs" for kvs
  proof -
    from that assms(2) have "req\<lparr>req_json := Inr (JObj kvs)\<rparr> = req" by simp
    with qa_test_runner_without_test_types [where now = now and req = req and kvs = kvs]
    show ?thesis by simp
  qed
  with st body show ?thesis by blast
qed

theorem qa_test_runner_validation_witness:
  "status (qa_test_runner ''2024-01-01T12:00:00.000Z''
     (post_request (JObj [(''project_id'', JStr ''project-123''),
                          (''base_url'', JStr ''https://example.com'')]))) = 202 \<and>
   status (qa_test_runner ''2024-01-01T12:00:00.000Z''
     (post_request (JObj [(''project_id'', JStr ''project-123'')]))) = 400 \<and>
   status (qa_test_runner ''2024-01-01T12:00:00.000Z''
     (post_request (JArr []))) = 400"
  using qa_test_runner_validation
      [of "post_request (JObj [(''project_id'', JStr ''project-123''),
                               (''base_url'', JStr ''https://example.com'')])"
          "JObj [(''project_id'', JStr ''project-123''),
                 (''base_url'', JStr ''https://example.com'')]"
          "''2024-01-01T12:00:00.000Z''"]
    qa_test_runner_validation
      [of "post_request (JObj [(''project_id'', JStr ''project-123'')])"
          "JObj [(''project_id'', JStr ''project-123'')]"
          "''2024-01-01T12:00:00.000Z''"]
    qa_test_runner_validation
      [of "post_request (JArr [])" "JArr []" "''2024-01-01T12:00:00.000Z''"]
  by (simp add: post_request_def missing_or_falsy_def)

text \<open>
  The claim as written fails on the JSON body \<^verbatim>\<open>null\<close>: it has no \<^verbatim>\<open>project_id\<close>,
  yet reading the property throws and the handler's \<^verbatim>\<open>catch\<close> answers 500, not 400.
\<close>

theorem qa_test_runner_null_body_counterexample:
  "missing_or_falsy JNull ''project_id'' \<and>
   status (qa_test_runner ''2024-01-01T12:00:00.000Z'' (post_request JNull)) = 500"
  by (simp add: missing_or_falsy_def qa_test_runner_def qa_test_runner_try_def
      missing_required_fields_def post_request_def internal_server_error_def json_response_def)

section \<open>The bug-report-query endpoint\<close>

text \<open>
  Claim C10, as amended. For every GET request to the bug-report-query endpoint, the
  handler returns status 400 exactly when each of the query parameters
  \<^verbatim>\<open>execution_id\<close> and \<^verbatim>\<open>project_id\<close> is absent or empty, and status 200 otherwise; so a
  request carrying only a severity filter is rejected, and a request carrying a non-empty
  \<^verbatim>\<open>execution_id\<close> or \<^verbatim>\<open>project_id\<close> returns 200.
\<close>

theorem bug_report_query_get_status:
  assumes "req_method req = ''GET''"
  shows "status (bug_report_query now req) =
           (if searchParams_get (req_query req) ''execution_id'' \<in> {None, Some ''''} \<and>
               searchParams_get (req_query req) ''project_id'' \<in> {None, Some ''''}
            then 400 else 200)"
proof -
  have "param_not p \<longleftrightarrow> p \<in> {None, Some ''''}" for p
    by (cases p) auto
  with assms show ?thesis
    by (simp add: bug_report_query_def bug_report_query_try_def Let_def json_response_def)
qed

theorem bug_report_query_get_status_witness:
  "status (bug_report_query ''2024-01-01T12:00:00.000Z''
     (get_request [(''severity'', ''critical'')])) = 400 \<and>
   status (bug_report_query ''2024-01-01T12:00:00.000Z''
     (get_request [(''execution_id'', ''exec-123''), (''severity'', ''critical'')])) = 200 \<and>
   status (bug_report_query ''2024-01-01T12:00:00.000Z''
     (get_request [(''project_id'', ''project-123'')])) = 200"
  using bug_report_query_get_status
      [of "get_request [(''severity'', ''critical'')]" "''2024-01-01T12:00:00.000Z''"]
    bug_report_query_get_status
      [of "get_request [(''execution_id'', ''exec-123''), (''severity'', ''critical'')]"
          "''2024-01-01T12:00:00.000Z''"]
    bug_report_query_get_status
      [of "get_request [(''project_id'', ''project-123'')]" "''2024-01-01T12:00:00.000Z''"]
  by (simp add: get_request_def)

text \<open>
  The claim as written fails: the request \<^verbatim>\<open>?execution_id=\<close> carries the parameter
  \<^verbatim>\<open>execution_id\<close> (it is present, with the empty value) and is answered with 400.
\<close>

theorem bug_report_query_empty_parameter_counterexample:
  "searchParams_get (req_query (get_request [(''execution_id'', '''')])) ''execution_id'' = Some '''' \<and>
   status (bug_report_query ''2024-01-01T12:00:00.000Z''
     (get_request [(''execution_id'', '''')])) = 400"
  by (simp add: bug_report_query_def bug_report_query_try_def get_request_def json_response_def)

section \<open>Deleting an execution\<close>

lemma example_db_eq:
  "example_db =
     \<lparr>test_projects = [example_project], test_scenarios = [], test_executions = [example_execution],
      test_results = [], bug_reports = [example_bug 3, example_bug 4],
      performance_metrics = [example_metric], accessibility_issues = [example_issue],
      screenshots = [], test_schedules = []\<rparr>"
  by (simp add: example_db_def empty_db_def insert_project_def insert_execution_def
      insert_bug_report_def insert_metric_def insert_issue_def project_exists_def
      execution_exists_def bug_report_fks_ok_def example_project_def example_execution_def
      example_bug_def example_metric_def example_issue_def)

lemma example_db_reachable: "reachable example_db"
  unfolding reachable_def example_db_def by blast

lemma set_null_execution_id [simp]: "br_id (set_null_execution gone b) = br_id b"
  by (simp add: set_null_execution_def split: option.splits)

lemma set_null_execution_one:
  "set_null_execution (\<lambda>x. x = e) =
     (\<lambda>b. if br_execution_id b = Some e then b\<lparr>br_execution_id := None\<rparr> else b)"
  by (rule ext) (auto simp: set_null_execution_def split: option.splits)

lemma delete_project_bug_reports:
  assumes "project_exists db p" and "b \<in> set (bug_reports (delete_project p db))"
  shows "br_project_id b \<noteq> p"
  using assms
  by (auto simp: delete_project_def Let_def set_null_execution_def split: option.splits if_splits)

text \<open>
  Claim C1, as amended. For every Execution, deleting the Execution deletes every
  PerformanceMetric and AccessibilityIssue row that it owns. Its BugReport rows are not
  deleted: every BugReport row stays, under the same id, and a row that named the
  Execution has its \<^verbatim>\<open>execution_id\<close> set to \<^verbatim>\<open>NULL\<close>.
\<close>

theorem delete_execution_owned_rows:
  assumes "execution_exists db e"
  shows "(\<forall>m \<in> set (performance_metrics (delete_execution e db)). pm_execution_id m \<noteq> e) \<and>
         (\<forall>i \<in> set (accessibility_issues (delete_execution e db)). ai_execution_id i \<noteq> e) \<and>
         bug_reports (delete_execution e db) =
           map (\<lambda>b. if br_execution_id b = Some e then b\<lparr>br_execution_id := None\<rparr> else b)
             (bug_reports db) \<and>
         map br_id (bug_reports (delete_execution e db)) = map br_id (bug_reports db)"
proof -
  have ids: "map (br_id \<circ> set_null_execution (\<lambda>x. x = e)) (bug_reports db) =
      map br_id (bug_reports db)"
    by (rule map_cong) simp_all
  show ?thesis
    using assms ids by (simp add: delete_execution_def set_null_execution_one [symmetric])
qed

theorem delete_execution_owned_rows_witness:
  "execution_exists example_db 2 \<and>
   performance_metrics example_db = [example_metric] \<and>
   performance_metrics (delete_execution 2 example_db) = [] \<and>
   accessibility_issues example_db = [example_issue] \<and>
   accessibility_issues (delete_execution 2 example_db) = [] \<and>
   bug_reports (delete_execution 2 example_db) =
     [(example_bug 3)\<lparr>br_execution_id := None\<rparr>, (example_bug 4)\<lparr>br_execution_id := None\<rparr>]"
proof -
  have ex: "execution_exists example_db 2"
    by (simp add: example_db_eq execution_exists_def example_execution_def)
  have pm: "performance_metrics (delete_execution 2 example_db) = []"
    by (simp add: delete_execution_def ex) (simp add: example_db_eq example_metric_def)
  have ai: "accessibility_issues (delete_execution 2 example_db) = []"
    by (simp add: delete_execution_def ex) (simp add: example_db_eq example_issue_def)
  from delete_execution_owned_rows [OF ex]
  have "bug_reports (delete_execution 2 example_db) =
      map (\<lambda>b. if br_execution_id b = Some 2 then b\<lparr>br_execution_id := None\<rparr> else b)
        (bug_reports example_db)"
    by blast
  then have "bug_reports (delete_execution 2 example_db) =
     [(example_bug 3)\<lparr>br_execution_id := None\<rparr>, (example_bug 4)\<lparr>br_execution_id := None\<rparr>]"
    by (simp add: example_db_eq) (simp add: example_bug_def)
  with ex pm ai show ?thesis by (simp add: example_db_eq)
qed

text \<open>
  The claim as written fails: the bug report of id 3 belongs to execution 2, and after the
  execution is deleted the rows of ids 3 and 4 are still in \<^verbatim>\<open>bug_reports\<close>.
\<close>

theorem bug_reports_survive_counterexample:
  "br_execution_id (example_bug 3) = Some 2 \<and> execution_exists example_db 2 \<and>
   example_bug 3 \<in> set (bug_reports example_db) \<and>
   map br_id (bug_reports (delete_execution 2 example_db)) = [3, 4]"
  by (simp add: delete_execution_def execution_exists_def comp_def)
     (simp add: example_db_eq example_execution_def example_bug_def)

section \<open>Uniqueness in the bug report table\<close>

lemma distinct_map_replace:
  assumes "distinct (map f xs)" and "f r \<notin> set (map f (filter (\<lambda>b. f b \<noteq> x) xs))"
  shows "distinct (map f (map (\<lambda>b. if f b = x then r else b) xs))"
  using assms
proof (induction xs)
  case Nil
  then show ?case by simp
next
  case (Cons a xs)
  show ?case
  proof (cases "f a = x")
    case True
    with Cons.prems have nx: "x \<notin> f ` set xs" by auto
    then have same: "map (\<lambda>b. if f b = x then r else b) xs = xs"
      by (induction xs) auto
    have "f r \<notin> f ` set xs"
    proof
      assume "f r \<in> f ` set xs"
      then obtain y where y: "y \<in> set xs" "f r = f y" by auto
      with nx have "f y \<noteq> x" by auto
      with y have "f r \<in> set (map f (filter (\<lambda>b. f b \<noteq> x) (a # xs)))" by auto
      with Cons.prems(2) show False by blast
    qed
    with True Cons.prems same show ?thesis by (simp add: image_iff)
  next
    case False
    with Cons show ?thesis by (auto simp: image_iff)
  qed
qed

lemma apply_db_op_keeps_bug_ids:
  assumes "distinct (map br_id (bug_reports db))" and "apply_db_op op db = Inr db'"
  shows "distinct (map br_id (bug_reports db'))"
proof (cases op)
  case (InsertBugReport r)
  with assms show ?thesis
    by (auto simp: insert_bug_report_def split: if_splits)
next
  case (UpdateBugReport x r)
  with assms show ?thesis
    using distinct_map_replace [of br_id "bug_reports db" r x]
    by (auto simp: update_bug_report_def split: if_splits)
next
  case (DeleteExecution e)
  with assms show ?thesis
    by (auto simp: delete_execution_def comp_def)
next
  case (DeleteProject p)
  with assms show ?thesis
    by (auto simp: delete_project_def Let_def comp_def distinct_map_filter)
qed (use assms in \<open>auto simp: insert_project_def insert_scenario_def insert_execution_def
      insert_result_def insert_metric_def insert_issue_def insert_screenshot_def
      insert_schedule_def split: if_splits\<close>)

lemma run_db_ops_keeps_bug_ids:
  "distinct (map br_id (bug_reports db)) \<Longrightarrow>
   distinct (map br_id (bug_reports (run_db_ops ops db)))"
proof (induction ops arbitrary: db)
  case Nil
  then show ?case by simp
next
  case (Cons op ops)
  then show ?case
    by (cases "apply_db_op op db") (auto dest: apply_db_op_keeps_bug_ids)
qed

text \<open>
  Claim C5, as amended. At every reachable state of the store, each BugReport id maps to
  at most one BugReport row: the primary key is the only uniqueness the schema declares
  for \<^verbatim>\<open>bug_reports\<close>, and it says nothing of the tuple (execution_id, page_url,
  bug_type, description-hash).
\<close>

theorem bug_report_ids_unique:
  "reachable db \<Longrightarrow> distinct (map br_id (bug_reports db))"
  unfolding reachable_def
  using run_db_ops_keeps_bug_ids [of empty_db] by (auto simp: empty_db_def)

theorem bug_report_ids_unique_witness:
  "reachable example_db \<and> distinct (map br_id (bug_reports example_db)) \<and>
   map br_id (bug_reports example_db) = [3, 4]"
proof -
  have "map br_id (bug_reports example_db) = [3, 4]"
    by (simp add: example_db_eq) (simp add: example_bug_def)
  with example_db_reachable bug_report_ids_unique [OF example_db_reachable]
  show ?thesis by simp
qed

text \<open>
  The claim as written fails: two inserts lead to a reachable store that holds two
  distinct BugReport rows with one deduplication key.
\<close>

theorem dedup_key_shared_counterexample:
  "reachable example_db \<and> bug_reports example_db = [example_bug 3, example_bug 4] \<and>
   example_bug 3 \<noteq> example_bug 4 \<and>
   row_dedup_key (example_bug 3) = row_dedup_key (example_bug 4)"
proof -
  have "example_bug 3 \<noteq> example_bug 4"
    by (simp add: example_bug_def)
  with example_db_reachable show ?thesis
    by (simp add: example_db_eq row_dedup_key_def) (simp add: example_bug_def)
qed

section \<open>Deduplication in the Bug Detector\<close>

lemma first_occurrences_seen_cong:
  "set seen = set seen' \<Longrightarrow> first_occurrences key seen xs = first_occurrences key seen' xs"
proof (induction xs arbitrary: seen seen')
  case Nil
  then show ?case by simp
next
  case (Cons x xs)
  from Cons.prems have "set (key x # seen) = set (key x # seen')" by simp
  then have "first_occurrences key (key x # seen) xs = first_occurrences key (key x # seen') xs"
    by (rule Cons.IH)
  moreover have "first_occurrences key seen xs = first_occurrences key seen' xs"
    using Cons.prems by (rule Cons.IH)
  ultimately show ?case using Cons.prems by simp
qed

lemma first_occurrences_append:
  "first_occurrences key seen (xs @ ys) =
     first_occurrences key seen xs @ first_occurrences key (map key xs @ seen) ys"
proof (induction xs arbitrary: seen)
  case Nil
  then show ?case by simp
next
  case (Cons x xs)
  show ?case
  proof (cases "key x \<in> set seen")
    case True
    then have "set (map key (x # xs) @ seen) = set (map key xs @ seen)" by auto
    then have "first_occurrences key (map key (x # xs) @ seen) ys =
        first_occurrences key (map key xs @ seen) ys"
      by (rule first_occurrences_seen_cong)
    with True Cons.IH [of seen] show ?thesis by simp
  next
    case False
    have "set (map key (x # xs) @ seen) = set (map key xs @ key x # seen)" by auto
    then have "first_occurrences key (map key (x # xs) @ seen) ys =
        first_occurrences key (map key xs @ key x # seen) ys"
      by (rule first_occurrences_seen_cong)
    with False Cons.IH [of "key x # seen"] show ?thesis by simp
  qed
qed

lemma first_occurrences_all_seen:
  "key ` set xs \<subseteq> set seen \<Longrightarrow> first_occurrences key seen xs = []"
  by (induction xs) auto

lemma first_occurrences_keys:
  "key ` set (first_occurrences key seen xs) = key ` set xs - set seen"
  by (induction xs arbitrary: seen) auto

lemma first_occurrences_distinct: "distinct (map key (first_occurrences key seen xs))"
proof (induction xs arbitrary: seen)
  case Nil
  then show ?case by simp
next
  case (Cons x xs)
  have "key x \<notin> key ` set (first_occurrences key (key x # seen) xs)"
    by (simp add: first_occurrences_keys)
  with Cons show ?case by simp
qed

lemma first_occurrences_filter:
  "first_occurrences key (seen @ seen') xs =
     first_occurrences key seen' (filter (\<lambda>x. key x \<notin> set seen) xs)"
proof (induction xs arbitrary: seen')
  case Nil
  then show ?case by simp
next
  case (Cons x xs)
  have "set (key x # seen @ seen') = set (seen @ key x # seen')" by auto
  then have "first_occurrences key (key x # seen @ seen') xs =
      first_occurrences key (seen @ key x # seen') xs"
    by (rule first_occurrences_seen_cong)
  with Cons.IH [of seen'] Cons.IH [of "key x # seen'"] show ?case by auto
qed

lemma first_occurrences_head:
  "first_occurrences key [] (x # xs) =
     x # first_occurrences key [] (filter (\<lambda>y. key y \<noteq> key x) xs)"
  using first_occurrences_filter [of key "[key x]" "[]" xs] by simp

lemma first_occurrences_repeated:
  "set ys \<subseteq> set xs \<Longrightarrow> first_occurrences key [] (xs @ ys) = first_occurrences key [] xs"
  by (simp add: first_occurrences_append first_occurrences_all_seen image_mono)

lemma bug_key_to_bug_report: "bug_key cfg (to_bug_report cfg e f) = finding_key cfg e f"
  by (simp add: bug_key_def to_bug_report_def finding_key_def)

lemma example_findings_classified:
  "classify example_config example_findings 2 =
     [\<lparr>db_execution_id = 2, db_bug_type = BrokenLink, db_severity = High,
       db_page_url = ''https://example.com/'', db_description = ''Broken link: /missing'',
       db_evidence = HttpStatus 404\<rparr>,
      \<lparr>db_execution_id = 2, db_bug_type = BrokenLink, db_severity = Critical,
       db_page_url = ''https://example.com/'', db_description = ''Broken link: /boom'',
       db_evidence = HttpStatus 500\<rparr>]"
  by (simp add: classify_def example_findings_def example_finding_def finding_key_def
      to_bug_report_def assign_severity_def)
     (simp add: example_config_def)

text \<open>
  Claim C4. For every finding list and execution_id, the Bug Detector's classify is
  idempotent under repeated runner output: classifying the findings followed by the same
  findings again (or by any of them again) yields the identical BugReport list as
  classifying them once. The result has no two BugReports of one deduplication key,
  because the first occurrence of a key in the list's order becomes the BugReport and
  every later finding of that key is discarded.
\<close>

theorem classify_idempotent:
  "classify cfg (fs @ fs) e = classify cfg fs e \<and>
   distinct (map (bug_key cfg) (classify cfg fs e)) \<and>
   classify cfg (f # fs) e =
     to_bug_report cfg e f #
     classify cfg (filter (\<lambda>g. finding_key cfg e g \<noteq> finding_key cfg e f) fs) e \<and>
   (set gs \<subseteq> set fs \<longrightarrow> classify cfg (fs @ gs) e = classify cfg fs e)"
proof (intro conjI impI)
  show "classify cfg (fs @ fs) e = classify cfg fs e"
    by (simp add: classify_def first_occurrences_repeated)
  show "distinct (map (bug_key cfg) (classify cfg fs e))"
    by (simp add: classify_def comp_def bug_key_to_bug_report first_occurrences_distinct)
  show "classify cfg (f # fs) e =
     to_bug_report cfg e f #
     classify cfg (filter (\<lambda>g. finding_key cfg e g \<noteq> finding_key cfg e f) fs) e"
    unfolding classify_def by (subst first_occurrences_head) simp
  show "classify cfg (fs @ gs) e = classify cfg fs e" if "set gs \<subseteq> set fs"
    using that by (simp add: classify_def first_occurrences_repeated)
qed

theorem classify_idempotent_witness:
  "set [example_finding ''https://example.com/'' Low ''/missing'' 410] \<subseteq> set example_findings \<and>
   classify example_config
     (example_findings @ [example_finding ''https://example.com/'' Low ''/missing'' 410]) 2 =
     [\<lparr>db_execution_id = 2, db_bug_type = BrokenLink, db_severity = High,
       db_page_url = ''https://example.com/'', db_description = ''Broken link: /missing'',
       db_evidence = HttpStatus 404\<rparr>,
      \<lparr>db_execution_id = 2, db_bug_type = BrokenLink, db_severity = Critical,
       db_page_url = ''https://example.com/'', db_description = ''Broken link: /boom'',
       db_evidence = HttpStatus 500\<rparr>] \<and>
   classify example_config (example_findings @ example_findings) 2 =
     classify example_config example_findings 2"
proof -
  have sub: "set [example_finding ''https://example.com/'' Low ''/missing'' 410]
      \<subseteq> set example_findings"
    by (simp add: example_findings_def)
  from classify_idempotent
    [of example_config example_findings 2 "hd example_findings"
        "[example_finding ''https://example.com/'' Low ''/missing'' 410]"]
  have "classify example_config (example_findings @ example_findings) 2 =
      classify example_config example_findings 2"
    and "classify example_config
      (example_findings @ [example_finding ''https://example.com/'' Low ''/missing'' 410]) 2 =
      classify example_config example_findings 2"
    using sub by blast+
  with sub show ?thesis
    by (simp add: example_findings_classified)
qed

section \<open>The Broken-Links runner followed by classification\<close>







section \<open>The Orchestrator's terminal status\<close>

lemma run_test_types_raised:
  assumes "\<forall>x \<in> set pre. \<exists>fs. world x = Findings fs" and "world t = Raised err"
  shows "run_test_types world (pre @ t # post) = Inl err"
  using assms by (induction pre) auto

lemma run_test_types_returned:
  assumes "\<forall>x \<in> set ts. \<exists>fs. world x = Findings fs"
  shows "\<exists>fs. run_test_types world ts = Inr fs"
  using assms by (induction ts) auto

text \<open>
  Claim C3. Every invocation of run_complete_qa_suite returns an Execution result, and
  the Execution it creates has by then reached exactly one terminal status: its status
  history is running followed by completed or by failed. When a test type raises an
  exception that no runner handled, the status is failed and the error of the first such
  exception is recorded; when none does, the status is completed. The status running
  never outlasts the call.
\<close>

theorem run_complete_qa_suite_terminal:
  "\<exists>ex writes.
     run_complete_qa_suite world detect e p url ts = (ex, writes) \<and>
     (ex_status ex = Completed \<or> ex_status ex = Failed) \<and>
     status_history e writes = [Running, ex_status ex] \<and>
     (case run_test_types (world url) ts of
        Inl err \<Rightarrow> ex_status ex = Failed \<and> ex_error ex = Some err
      | Inr fs \<Rightarrow> ex_status ex = Completed \<and> ex_error ex = None \<and> ex_bug_reports ex = detect fs e) \<and>
     (\<forall>pre t post err.
        ts = pre @ t # post \<and> (\<forall>x \<in> set pre. \<exists>fs. world url x = Findings fs) \<and>
        world url t = Raised err \<longrightarrow>
        ex_status ex = Failed \<and> ex_error ex = Some err) \<and>
     ((\<forall>x \<in> set ts. \<exists>fs. world url x = Findings fs) \<longrightarrow> ex_status ex = Completed)"
proof -
  let ?ex = "fst (run_complete_qa_suite world detect e p url ts)"
  have first: "ex_status ?ex = Failed \<and> ex_error ?ex = Some err"
    if "ts = pre @ t # post" and "\<forall>x \<in> set pre. \<exists>fs. world url x = Findings fs"
      and "world url t = Raised err" for pre t post err
  proof -
    from that have "run_test_types (world url) ts = Inl err"
      by (simp add: run_test_types_raised)
    then show ?thesis
      by (simp add: run_complete_qa_suite_def)
  qed
  have none: "ex_status ?ex = Completed" if "\<forall>x \<in> set ts. \<exists>fs. world url x = Findings fs"
  proof -
    from run_test_types_returned [OF that] obtain fs
      where "run_test_types (world url) ts = Inr fs" by blast
    then show ?thesis
      by (simp add: run_complete_qa_suite_def Let_def)
  qed
  have rest: "(ex_status ?ex = Completed \<or> ex_status ?ex = Failed) \<and>
     status_history e (snd (run_complete_qa_suite world detect e p url ts)) =
       [Running, ex_status ?ex] \<and>
     (case run_test_types (world url) ts of
        Inl err \<Rightarrow> ex_status ?ex = Failed \<and> ex_error ?ex = Some err
      | Inr fs \<Rightarrow> ex_status ?ex = Completed \<and> ex_error ?ex = None \<and>
          ex_bug_reports ?ex = detect fs e)"
    by (cases "run_test_types (world url) ts") (simp_all add: run_complete_qa_suite_def Let_def)
  show ?thesis
  proof (intro exI conjI)
    show "run_complete_qa_suite world detect e p url ts =
        (?ex, snd (run_complete_qa_suite world detect e p url ts))"
      by simp
  qed (use first none rest in blast)+
qed

theorem run_complete_qa_suite_terminal_witness:
  "run_complete_qa_suite example_world (\<lambda>fs e. fs) 2 1 ''https://example.com''
      [Functional, Accessibility, BrokenLinks] =
     (\<lparr>ex_id = 2, ex_project_id = 1, ex_status = Failed,
       ex_error = Some (SessionResourceError ''browser closed''), ex_bug_reports = []\<rparr>,
      [CreateExecution 2 1 Running,
       SetStatus 2 Failed (Some (SessionResourceError ''browser closed''))]) \<and>
   run_complete_qa_suite example_world (\<lambda>fs e. fs) 2 1 ''https://example.com''
      [Functional, BrokenLinks] =
     (\<lparr>ex_id = 2, ex_project_id = 1, ex_status = Completed, ex_error = None,
       ex_bug_reports = [1, 2]\<rparr>,
      [CreateExecution 2 1 Running, FlushBugReports 2 [1, 2], SetStatus 2 Completed None])"
proof -
  obtain ex writes where
    "run_complete_qa_suite example_world (\<lambda>fs e. fs) 2 1 ''https://example.com''
       [Functional, Accessibility, BrokenLinks] = (ex, writes)"
    and "\<forall>pre t post err.
        [Functional, Accessibility, BrokenLinks] = pre @ t # post \<and>
        (\<forall>x \<in> set pre. \<exists>fs. example_world ''https://example.com'' x = Findings fs) \<and>
        example_world ''https://example.com'' t = Raised err \<longrightarrow>
        ex_status ex = Failed \<and> ex_error ex = Some err"
    using run_complete_qa_suite_terminal
      [of example_world "\<lambda>fs e. fs" 2 1 "''https://example.com''"
          "[Functional, Accessibility, BrokenLinks]"]
    by blast
  then show ?thesis
    by (simp add: run_complete_qa_suite_def example_world_def Let_def)
qed

section \<open>The Scheduler's tick\<close>

lemma parse_half_hourly:
  "parse_cron ''*/30 * * * *'' =
     Some \<lparr>cron_minute = [StarStep 30], cron_hour = [Star], cron_day = [Star],
           cron_month = [Star], cron_weekday = [Star]\<rparr>"
  by (simp add: parse_cron_def parse_field_def parse_item_def parse_base_def parse_nat_def
      is_digit_def)

lemma parse_cron_examples:
  "parse_cron ''0 9 * * *'' =
     Some \<lparr>cron_minute = [Single 0], cron_hour = [Single 9], cron_day = [Star],
           cron_month = [Star], cron_weekday = [Star]\<rparr>"
  "parse_cron ''0 */4 * * *'' =
     Some \<lparr>cron_minute = [Single 0], cron_hour = [StarStep 4], cron_day = [Star],
           cron_month = [Star], cron_weekday = [Star]\<rparr>"
  "parse_cron ''0 0 * * 1'' =
     Some \<lparr>cron_minute = [Single 0], cron_hour = [Single 0], cron_day = [Star],
           cron_month = [Star], cron_weekday = [Single 1]\<rparr>"
  "parse_cron ''0 0 1 * *'' =
     Some \<lparr>cron_minute = [Single 0], cron_hour = [Single 0], cron_day = [Single 1],
           cron_month = [Star], cron_weekday = [Star]\<rparr>"
  "parse_cron ''every half hour'' = None"
  by (simp_all add: parse_cron_def parse_field_def parse_item_def parse_base_def parse_nat_def
      is_digit_def)

lemma civil_of_days_examples:
  "civil_of_days 0 = (1970, 1, 1)"
  "civil_of_days 11016 = (2000, 2, 29)"
  "civil_of_days 19723 = (2024, 1, 1)"
  "civil_of_days 47540 = (2100, 2, 28)"
  "civil_of_days 47541 = (2100, 3, 1)"
  by (simp_all add: civil_of_days_def Let_def)

lemma example_time:
  "28401840 div 1440 = (19723::nat)" "hour_of 28401840 = 12" "minute_of 28401840 = 0"
  "weekday_of 28401840 = 1" "month_of 28401840 = 1" "day_of 28401840 = 1"
  by (simp_all add: hour_of_def minute_of_def weekday_of_def month_of_def day_of_def
      civil_of_days_def Let_def)

lemma first_match_at:
  "(\<forall>k<n. \<not> P (t + k)) \<Longrightarrow> P (t + n) \<Longrightarrow> n < fuel \<Longrightarrow> first_match P fuel t = Some (t + n)"
proof (induction fuel arbitrary: t n)
  case 0
  then show ?case by simp
next
  case (Suc fuel)
  show ?case
  proof (cases n)
    case 0
    with Suc.prems show ?thesis by simp
  next
    case (Suc m)
    with Suc.prems have "\<not> P t" by force
    moreover have "first_match P fuel (Suc t) = Some (Suc t + m)"
    proof (rule Suc.IH)
      show "\<forall>k<m. \<not> P (Suc t + k)"
        using Suc.prems(1) Suc by (metis Suc_less_eq add_Suc_shift)
      show "P (Suc t + m)" using Suc.prems(2) Suc by simp
      show "m < fuel" using Suc.prems(3) Suc by simp
    qed
    ultimately show ?thesis using Suc by simp
  qed
qed

lemma half_hourly_matches:
  "cron_matches \<lparr>cron_minute = [StarStep 30], cron_hour = [Star], cron_day = [Star],
                 cron_month = [Star], cron_weekday = [Star]\<rparr> t \<longleftrightarrow> t mod 60 mod 30 = 0"
  by (simp add: cron_matches_def field_matches_def weekday_matches_def minute_of_def)

lemma minute_after_full_hour:
  assumes "(now::nat) mod 60 = 0" and "k < 60"
  shows "(now + k) mod 60 = k"
proof -
  have "(now + k) mod 60 = (now mod 60 + k) mod 60"
    by (simp add: mod_add_left_eq)
  with assms show ?thesis by simp
qed

lemma first_match_Some:
  "first_match P fuel t = Some n \<Longrightarrow> t \<le> n \<and> P n \<and> (\<forall>m. t \<le> m \<and> m < n \<longrightarrow> \<not> P m)"
proof (induction fuel arbitrary: t)
  case 0
  then show ?case by simp
next
  case (Suc fuel)
  show ?case
  proof (cases "P t")
    case True
    with Suc.prems show ?thesis by auto
  next
    case False
    with Suc.prems have "first_match P fuel (Suc t) = Some n" by simp
    from Suc.IH [OF this] have "Suc t \<le> n" "P n" "\<forall>m. Suc t \<le> m \<and> m < n \<longrightarrow> \<not> P m"
      by auto
    with False show ?thesis
      by (metis Suc_leD Suc_leI le_neq_implies_less)
  qed
qed

lemma next_run_of_Some:
  assumes "next_run_of expr now = Some n"
  shows "\<exists>c. parse_cron expr = Some c \<and> now < n \<and> cron_matches c n \<and>
             (\<forall>m. now < m \<and> m < n \<longrightarrow> \<not> cron_matches c m)"
proof -
  from assms obtain c where c: "parse_cron expr = Some c"
      "first_match (cron_matches c) horizon (Suc now) = Some n"
    by (auto simp: next_run_of_def cron_next_def split: option.splits)
  from first_match_Some [OF c(2)] c(1) show ?thesis
    by (auto simp: Suc_le_eq)
qed

lemma minute_after_half_hour:
  assumes "(now::nat) mod 30 = 0" and "k < 30"
  shows "(now + k) mod 30 = k"
proof -
  have "(now + k) mod 30 = (now mod 30 + k) mod 30"
    by (simp add: mod_add_left_eq)
  with assms show ?thesis by simp
qed

lemma half_hourly_matches_mod: 
  "cron_matches \<lparr>cron_minute = [StarStep 30], cron_hour = [Star], cron_day = [Star],
                 cron_month = [Star], cron_weekday = [Star]\<rparr> t \<longleftrightarrow> t mod 30 = 0"
proof -
  have "t mod 60 mod 30 = t mod 30"
    by (rule mod_mod_cancel) simp
  then show ?thesis by (simp add: half_hourly_matches)
qed

lemma half_hourly_next:
  assumes "now mod 30 = 0"
  shows "next_run_of ''*/30 * * * *'' now = Some (now + 30)"
proof -
  let ?P = "cron_matches \<lparr>cron_minute = [StarStep 30], cron_hour = [Star], cron_day = [Star],
                 cron_month = [Star], cron_weekday = [Star]\<rparr>"
  have "first_match ?P horizon (Suc now) = Some (Suc now + 29)"
  proof (rule first_match_at)
    show "\<forall>k<29. \<not> ?P (Suc now + k)"
    proof (intro allI impI)
      fix k :: nat
      assume "k < 29"
      with minute_after_half_hour [OF assms, of "Suc k"] show "\<not> ?P (Suc now + k)"
        by (simp add: half_hourly_matches_mod)
    qed
    show "?P (Suc now + 29)"
      using assms by (simp add: half_hourly_matches_mod)
    show "29 < horizon" by (simp add: horizon_def)
  qed
  then show ?thesis
    by (simp add: next_run_of_def parse_half_hourly cron_next_def)
qed

lemma full_hour_half_hour: "minute_of now = 0 \<Longrightarrow> now mod 30 = 0"
proof -
  assume "minute_of now = 0"
  then have "60 dvd now" by (simp add: minute_of_def mod_eq_0_iff_dvd)
  then have "30 dvd now" by (rule dvd_trans [rotated]) simp
  then show ?thesis by simp
qed

lemma half_past_noon:
  assumes "hour_of now = 12" and "minute_of now = 0"
  shows "hour_of (now + 30) = 12 \<and> minute_of (now + 30) = 30"
proof -
  from assms(2) have "60 dvd now"
    by (simp add: minute_of_def mod_eq_0_iff_dvd)
  then obtain q where q: "now = 60 * q" ..
  have "(60 * q + 30) div 60 = q" by simp
  with assms(1) q have "hour_of (now + 30) = 12"
    by (simp add: hour_of_def)
  moreover have "minute_of (now + 30) = 30"
    using minute_after_full_hour [of now 30] assms(2) by (simp add: minute_of_def)
  ultimately show ?thesis by simp
qed

lemma fire_all_nth:
  "i < length ss \<Longrightarrow>
   fst (fire_all now busy ss) ! i = fst (fire now (busy_at now busy ss i) (ss ! i)) \<and>
   snd (snd (fire_all now busy ss)) ! i = snd (snd (fire now (busy_at now busy ss i) (ss ! i)))"
proof (induction ss arbitrary: busy i)
  case Nil
  then show ?case by simp
next
  case (Cons s ss)
  obtain s' busy' out where f: "fire now busy s = (s', busy', out)"
    by (cases "fire now busy s") auto
  obtain ss' busy'' outs where fa: "fire_all now busy' ss = (ss', busy'', outs)"
    by (cases "fire_all now busy' ss") auto
  show ?case
  proof (cases i)
    case 0
    then show ?thesis by (simp add: f fa)
  next
    case (Suc k)
    with Cons.prems have "k < length ss" by simp
    from Cons.IH [OF this, of busy'] Suc show ?thesis
      by (simp add: f fa)
  qed
qed

lemma fire_busy_mono: "set busy \<subseteq> set (fst (snd (fire now busy s)))"
  by (auto simp: fire_def)

lemma busy_at_mono: "set busy \<subseteq> set (busy_at now busy ss i)"
proof (induction now busy ss i rule: busy_at.induct)
  case (3 now busy s ss i)
  with fire_busy_mono [of busy now s] show ?case by auto
qed simp_all

lemma tick_schedules:
  "schedules (fst (tick now st)) = fst (fire_all now (running st) (schedules st))"
  by (simp add: tick_def split: prod.splits)

lemma tick_outcomes: "snd (tick now st) = snd (snd (fire_all now (running st) (schedules st)))"
  by (simp add: tick_def split: prod.splits)

text \<open>
  Claim C7. For every Schedule with cron expression \<^verbatim>\<open>*/30 * * * *\<close> that fires at a
  tick at 12:00, the Scheduler sets last_run to the time of the tick and recomputes
  next_run to 12:30 of that day. At any tick where a Schedule is due and a prior invocation
  for its project is still running, that Schedule's invocation is skipped and never queued:
  the outcome is SchedulerSkipped, last_run is left unchanged, and the Schedule is due again
  only from the first minute after the tick that its expression matches, so the missed
  trigger is not made up when the project is free.
\<close>

theorem scheduler_tick:
  assumes "i < length (schedules st)" and "s = schedules st ! i"
  shows "(snd (tick now st) ! i = Invoked \<and> sch_cron_expression s = ''*/30 * * * *'' \<and>
          hour_of now = 12 \<and> minute_of now = 0 \<longrightarrow>
            schedules (fst (tick now st)) ! i =
              s\<lparr>sch_last_run := Some now, sch_next_run := Some (now + 30)\<rparr> \<and>
            hour_of (now + 30) = 12 \<and> minute_of (now + 30) = 30) \<and>
         (is_due now s \<and> sch_project_id s \<in> set (running st) \<longrightarrow>
            snd (tick now st) ! i = SchedulerSkipped \<and>
            schedules (fst (tick now st)) ! i =
              s\<lparr>sch_next_run := next_run_of (sch_cron_expression s) now\<rparr> \<and>
            sch_last_run (schedules (fst (tick now st)) ! i) = sch_last_run s \<and>
            (\<forall>t. is_due t (schedules (fst (tick now st)) ! i) \<longrightarrow>
               (\<exists>c n. parse_cron (sch_cron_expression s) = Some c \<and>
                      sch_next_run (schedules (fst (tick now st)) ! i) = Some n \<and>
                      now < n \<and> n \<le> t \<and> cron_matches c n \<and>
                      (\<forall>m. now < m \<and> m < n \<longrightarrow> \<not> cron_matches c m))))"
proof -
  let ?B = "busy_at now (running st) (schedules st) i"
  from fire_all_nth [OF assms(1), of now "running st"] assms(2)
  have nth: "schedules (fst (tick now st)) ! i = fst (fire now ?B s)"
      "snd (tick now st) ! i = snd (snd (fire now ?B s))"
    by (simp_all add: tick_schedules tick_outcomes)
  have fired: "schedules (fst (tick now st)) ! i =
              s\<lparr>sch_last_run := Some now, sch_next_run := Some (now + 30)\<rparr> \<and>
            hour_of (now + 30) = 12 \<and> minute_of (now + 30) = 30"
    if "snd (tick now st) ! i = Invoked" and "sch_cron_expression s = ''*/30 * * * *''"
      and "hour_of now = 12" and "minute_of now = 0"
  proof -
    from that(1) nth(2) have "fst (fire now ?B s) =
        s\<lparr>sch_last_run := Some now, sch_next_run := next_run_of (sch_cron_expression s) now\<rparr>"
      by (auto simp: fire_def split: if_splits)
    with nth(1) that(2) half_hourly_next [OF full_hour_half_hour [OF that(4)]]
    have "schedules (fst (tick now st)) ! i =
        s\<lparr>sch_last_run := Some now, sch_next_run := Some (now + 30)\<rparr>"
      by simp
    with half_past_noon [OF that(3,4)] show ?thesis by simp
  qed
  have skipped: "snd (tick now st) ! i = SchedulerSkipped \<and>
            schedules (fst (tick now st)) ! i =
              s\<lparr>sch_next_run := next_run_of (sch_cron_expression s) now\<rparr> \<and>
            sch_last_run (schedules (fst (tick now st)) ! i) = sch_last_run s \<and>
            (\<forall>t. is_due t (schedules (fst (tick now st)) ! i) \<longrightarrow>
               (\<exists>c n. parse_cron (sch_cron_expression s) = Some c \<and>
                      sch_next_run (schedules (fst (tick now st)) ! i) = Some n \<and>
                      now < n \<and> n \<le> t \<and> cron_matches c n \<and>
                      (\<forall>m. now < m \<and> m < n \<longrightarrow> \<not> cron_matches c m)))"
    if "is_due now s" and "sch_project_id s \<in> set (running st)"
  proof -
    from that(2) busy_at_mono [of "running st" now "schedules st" i]
    have "sch_project_id s \<in> set ?B" by auto
    with that(1) have f: "fire now ?B s =
        (s\<lparr>sch_next_run := next_run_of (sch_cron_expression s) now\<rparr>, ?B, SchedulerSkipped)"
      by (simp add: fire_def)
    with nth have s': "schedules (fst (tick now st)) ! i =
        s\<lparr>sch_next_run := next_run_of (sch_cron_expression s) now\<rparr>"
      and out: "snd (tick now st) ! i = SchedulerSkipped"
      by simp_all
    have "\<exists>c n. parse_cron (sch_cron_expression s) = Some c \<and>
                      sch_next_run (schedules (fst (tick now st)) ! i) = Some n \<and>
                      now < n \<and> n \<le> t \<and> cron_matches c n \<and>
                      (\<forall>m. now < m \<and> m < n \<longrightarrow> \<not> cron_matches c m)"
      if d: "is_due t (schedules (fst (tick now st)) ! i)" for t
    proof -
      from d s' obtain n where n: "next_run_of (sch_cron_expression s) now = Some n" "n \<le> t"
        by (auto simp: is_due_def split: option.splits)
      from next_run_of_Some [OF n(1)] n s' show ?thesis by auto
    qed
    with s' out show ?thesis by simp
  qed
  from fired skipped show ?thesis by blast
qed

lemma fire_outcome:
  "snd (snd (fire now busy s)) =
     (if \<not> is_due now s then NotDue
      else if sch_project_id s \<in> set busy then SchedulerSkipped else Invoked)"
  by (simp add: fire_def)

lemma fire_busy:
  "fst (snd (fire now busy s)) =
     (if is_due now s \<and> sch_project_id s \<notin> set busy then sch_project_id s # busy else busy)"
  by (simp add: fire_def)

lemma fire_all_outcomes:
  "snd (snd (fire_all now busy [])) = []"
  "snd (snd (fire_all now busy (s # ss))) =
     snd (snd (fire now busy s)) # snd (snd (fire_all now (fst (snd (fire now busy s))) ss))"
  by (simp_all split: prod.splits)

lemma example_outcomes: "snd (tick 28401840 example_scheduler) = [Invoked, SchedulerSkipped]"
  by (simp add: tick_outcomes example_scheduler_def fire_all_outcomes fire_outcome fire_busy
      is_due_def del: fire_all.simps)

theorem scheduler_tick_witness:
  "hour_of 28401840 = 12 \<and> minute_of 28401840 = 0 \<and>
   snd (tick 28401840 example_scheduler) = [Invoked, SchedulerSkipped] \<and>
   schedules (fst (tick 28401840 example_scheduler)) ! 0 =
     \<lparr>sch_project_id = 1, sch_cron_expression = ''*/30 * * * *'', sch_enabled = True,
      sch_last_run = Some 28401840, sch_next_run = Some 28401870\<rparr> \<and>
   schedules (fst (tick 28401840 example_scheduler)) ! 1 =
     \<lparr>sch_project_id = 8, sch_cron_expression = ''*/30 * * * *'', sch_enabled = True,
      sch_last_run = Some 28401810, sch_next_run = Some 28401870\<rparr> \<and>
   \<not> is_due 28401841 (schedules (fst (tick 28401840 example_scheduler)) ! 1)"
proof -
  have len: "0 < length (schedules example_scheduler)" "1 < length (schedules example_scheduler)"
    by (simp_all add: example_scheduler_def)
  have noon: "hour_of 28401840 = 12 \<and> minute_of 28401840 = 0"
    by (simp add: hour_of_def minute_of_def)
  have next': "next_run_of ''*/30 * * * *'' 28401840 = Some 28401870"
    using half_hourly_next [of 28401840] by simp
  from scheduler_tick [OF len(1) refl, of 28401840] noon example_outcomes
  have a: "schedules (fst (tick 28401840 example_scheduler)) ! 0 =
      (schedules example_scheduler ! 0)
        \<lparr>sch_last_run := Some 28401840, sch_next_run := Some (28401840 + 30)\<rparr>"
    by (simp add: example_scheduler_def)
  have due: "is_due 28401840 (schedules example_scheduler ! 1) \<and>
      sch_project_id (schedules example_scheduler ! 1) \<in> set (running example_scheduler)"
    by (simp add: example_scheduler_def is_due_def)
  from scheduler_tick [OF len(2) refl, of 28401840] due
  have b: "schedules (fst (tick 28401840 example_scheduler)) ! 1 =
      (schedules example_scheduler ! 1)
        \<lparr>sch_next_run := next_run_of (sch_cron_expression (schedules example_scheduler ! 1)) 28401840\<rparr>"
    by blast
  from a b noon example_outcomes next' show ?thesis
    by (simp add: example_scheduler_def is_due_def)
qed

text \<open>
  Over ticks: project 8 is skipped at 12:00 and its invocation returns; the tick at 12:01
  finds neither Schedule due.
\<close>

lemma example_after_tick:
  "fst (tick 28401840 example_scheduler) =
     \<lparr>schedules =
        [\<lparr>sch_project_id = 1, sch_cron_expression = ''*/30 * * * *'', sch_enabled = True,
          sch_last_run = Some 28401840, sch_next_run = Some 28401870\<rparr>,
         \<lparr>sch_project_id = 8, sch_cron_expression = ''*/30 * * * *'', sch_enabled = True,
          sch_last_run = Some 28401810, sch_next_run = Some 28401870\<rparr>],
      running = [1, 8]\<rparr>"
proof -
  have "next_run_of ''*/30 * * * *'' 28401840 = Some 28401870"
    using half_hourly_next [of 28401840] by simp
  then show ?thesis
    by (simp add: tick_def example_scheduler_def fire_def is_due_def)
qed

lemma skipped_trigger_not_made_up:
  "snd (tick 28401841 (invocation_returned 8 (fst (tick 28401840 example_scheduler)))) =
     [NotDue, NotDue]"
  unfolding example_after_tick
  by (simp add: invocation_returned_def tick_def fire_def is_due_def)


end
